theory Spec2Isabelle
  imports Complex_Main "HOL-Library.Sublist"
begin

section \<open>JavaScript values used by the front end\<close>

text \<open>
  Decimal printing of a number inside a template literal (\<^verbatim>\<open>`${page}`\<close>,
  \<^verbatim>\<open>`${response.status}`\<close>, \<^verbatim>\<open>String(movie.id)\<close>). Page numbers, HTTP status codes and
  movie ids are non-negative integers.
\<close>

definition digit_char :: "nat \<Rightarrow> char" where
  "digit_char d = ''0123456789'' ! d"

function string_of_nat :: "nat \<Rightarrow> string" where
  "string_of_nat n =
     (if n < 10 then [digit_char n]
      else string_of_nat (n div 10) @ [digit_char (n mod 10)])"
  by pat_completeness auto
termination
  by (relation "measure id") auto

declare string_of_nat.simps [simp del]

text \<open>Exceptions that the code of the API module can meet.\<close>

datatype js_exn =
    TypeError  \<comment> \<open>\<^verbatim>\<open>fetch\<close> rejects, or a property is read on \<^verbatim>\<open>undefined\<close>\<close>
  | Error string  \<comment> \<open>\<^verbatim>\<open>throw new Error(...)\<close>\<close>
  | SyntaxError  \<comment> \<open>\<^verbatim>\<open>response.json()\<close> rejects: the body is not JSON\<close>

section \<open>The backend as seen through \<^verbatim>\<open>fetch\<close>\<close>

text \<open>
  A page envelope \<^verbatim>\<open>{ results: [...], next: ... }\<close>. Either property may be missing
  (or \<^verbatim>\<open>null\<close>) in what the backend sends: that is \<open>None\<close>.
\<close>

record 'a envelope =
  results :: "'a list option"
  next_link :: "string option"

text \<open>
  An HTTP response: its status and what \<^verbatim>\<open>response.json()\<close> resolves to
  (\<open>None\<close> when the body does not parse). \<^verbatim>\<open>response.ok\<close> is the Fetch API's
  flag for a status in the range 200 to 299.
\<close>

record 'd response =
  status :: nat
  json :: "'d option"

definition ok :: "'d response \<Rightarrow> bool" where
  "ok r = (200 \<le> status r \<and> status r \<le> 299)"

text \<open>The network: what \<^verbatim>\<open>fetch(url)\<close> settles to; \<open>None\<close> is a rejected request.\<close>

type_synonym 'd network = "string \<Rightarrow> 'd response option"

definition fetch :: "'d network \<Rightarrow> string \<Rightarrow> js_exn + 'd response" where
  "fetch net url = (case net url of None \<Rightarrow> Inl TypeError | Some r \<Rightarrow> Inr r)"

section \<open>api.js and fecth\_functions.js: the page fetcher\<close>

definition API_baseUrl :: string where
  "API_baseUrl = ''http://127.0.0.1:8000/api/v1''"

definition genresUrl :: string where
  "genresUrl = API_baseUrl @ ''/genres/''"

definition titlesUrl :: string where
  "titlesUrl = API_baseUrl @ ''/titles/''"

text \<open>
  \<^verbatim>\<open>let fullUrl = `${url}?page=${page}`; if (queryParams) fullUrl += `&${queryParams}`;\<close>
  A string is truthy when it is not empty.
\<close>

definition fullUrl :: "string \<Rightarrow> nat \<Rightarrow> string \<Rightarrow> string" where
  "fullUrl url page queryParams =
     (let u = url @ ''?page='' @ string_of_nat page
      in if queryParams \<noteq> [] then u @ ''&'' @ queryParams else u)"

text \<open>The body of the \<^verbatim>\<open>try\<close> block of \<^verbatim>\<open>fetchPage\<close>: \<open>Inl\<close> is a thrown exception.\<close>

definition fetchPage_try :: "'d network \<Rightarrow> string \<Rightarrow> nat \<Rightarrow> string \<Rightarrow> js_exn + 'd" where
  "fetchPage_try net url page queryParams =
     (case fetch net (fullUrl url page queryParams) of
        Inl e \<Rightarrow> Inl e
      | Inr response \<Rightarrow>
          if \<not> ok response
          then Inl (Error (''Erreur HTTP: '' @ string_of_nat (status response)))
          else (case json response of
                  None \<Rightarrow> Inl SyntaxError
                | Some data \<Rightarrow> Inr data))"

text \<open>
  \<^verbatim>\<open>fetchPage\<close>, the same function in api.js and in fecth\_functions.js: the
  \<^verbatim>\<open>catch\<close> clause logs and returns \<^verbatim>\<open>null\<close>.
\<close>

definition fetchPage :: "'d network \<Rightarrow> string \<Rightarrow> nat \<Rightarrow> string \<Rightarrow> 'd option" where
  "fetchPage net url page queryParams =
     (case fetchPage_try net url page queryParams of
        Inl error \<Rightarrow> None
      | Inr data \<Rightarrow> Some data)"

text \<open>
  \<^verbatim>\<open>fetchMovies\<close> (api.js) and \<^verbatim>\<open>fetchTitles\<close> (fecth\_functions.js): one page of
  the titles endpoint. Nothing in their \<^verbatim>\<open>try\<close> block can throw, since \<^verbatim>\<open>fetchPage\<close>
  has caught everything; \<^verbatim>\<open>fetchTitles\<close> also stores the page in a module variable
  that nothing reads.
\<close>

definition fetchMovies :: "'m envelope network \<Rightarrow> nat \<Rightarrow> string \<Rightarrow> 'm envelope option" where
  "fetchMovies net page queryParams = fetchPage net titlesUrl page queryParams"

definition fetchTitles :: "'m envelope network \<Rightarrow> nat \<Rightarrow> string \<Rightarrow> 'm envelope option" where
  "fetchTitles net page args = fetchPage net titlesUrl page args"

section \<open>categories.js: the movie page aggregator\<close>

text \<open>\<^verbatim>\<open>Math.ceil(movieCount / 5)\<close>, for a count that is a non-negative integer.\<close>

definition pagesNeeded :: "nat \<Rightarrow> nat" where
  "pagesNeeded movieCount = nat \<lceil>real movieCount / 5\<rceil>"

text \<open>
  \<^verbatim>\<open>for (let page = 1; page <= pagesNeeded; page++) promises.push(fetchOne(page))\<close>
  followed by \<^verbatim>\<open>Promise.all\<close>, which keeps the order of the array whatever the order
  in which the requests settle.
\<close>

function promises_loop :: "(nat \<Rightarrow> 'r) \<Rightarrow> nat \<Rightarrow> nat \<Rightarrow> 'r list \<Rightarrow> 'r list" where
  "promises_loop fetchOne n page promises =
     (if page \<le> n then promises_loop fetchOne n (Suc page) (promises @ [fetchOne page])
      else promises)"
  by pat_completeness auto
termination
  by (relation "measure (\<lambda>(fetchOne, n, page, promises). Suc n - page)") auto

declare promises_loop.simps [simp del]

text \<open>
  \<^verbatim>\<open>responses.forEach(response => { if (response && response.results)
  allMovies = allMovies.concat(response.results); })\<close>
\<close>

definition concat_results :: "'m list \<Rightarrow> 'm envelope option \<Rightarrow> 'm list" where
  "concat_results allMovies response =
     (case response of
        None \<Rightarrow> allMovies
      | Some r \<Rightarrow> (case results r of None \<Rightarrow> allMovies | Some rs \<Rightarrow> allMovies @ rs))"

definition combine :: "'m envelope option list \<Rightarrow> 'm list" where
  "combine responses = foldl concat_results [] responses"

text \<open>The array \<^verbatim>\<open>responses\<close> of \<^verbatim>\<open>fetchMultiplePages\<close>, then the function itself.\<close>

definition fetchMultiplePages_responses ::
  "'m envelope network \<Rightarrow> nat \<Rightarrow> string \<Rightarrow> 'm envelope option list" where
  "fetchMultiplePages_responses net movieCount queryParams =
     promises_loop (\<lambda>page. fetchMovies net page queryParams) (pagesNeeded movieCount) 1 []"

definition fetchMultiplePages :: "'m envelope network \<Rightarrow> nat \<Rightarrow> string \<Rightarrow> 'm list" where
  "fetchMultiplePages net movieCount queryParams =
     (let responses = fetchMultiplePages_responses net movieCount queryParams
      in take movieCount (combine responses))"

text \<open>
  The aggregation inside \<^verbatim>\<open>displayCategory\<close> (html\_inject.js): the same pages, but the
  function returns before combining anything when \<^verbatim>\<open>responses[0]\<close> is missing,
  \<^verbatim>\<open>null\<close> or without results. \<open>None\<close> is that early return.
\<close>

definition first_page_ok :: "'m envelope option list \<Rightarrow> bool" where
  "first_page_ok responses =
     (case responses of
        [] \<Rightarrow> False
      | None # _ \<Rightarrow> False
      | Some r0 # _ \<Rightarrow> results r0 \<noteq> None)"

definition displayCategory_responses ::
  "'m envelope network \<Rightarrow> nat \<Rightarrow> string \<Rightarrow> 'm envelope option list" where
  "displayCategory_responses net movieCount queryParams =
     promises_loop (\<lambda>page. fetchTitles net page queryParams) (pagesNeeded movieCount) 1 []"

definition displayCategory_movies :: "'m envelope network \<Rightarrow> nat \<Rightarrow> string \<Rightarrow> 'm list option" where
  "displayCategory_movies net movieCount queryParams =
     (let responses = displayCategory_responses net movieCount queryParams
      in if \<not> first_page_ok responses then None
         else Some (take movieCount (combine responses)))"

section \<open>api.js and fecth\_functions.js: the genre aggregator\<close>

text \<open>\<^verbatim>\<open>!data || !data.next\<close>: no envelope, or a link that is missing, null or empty.\<close>

definition stops :: "'g envelope option \<Rightarrow> bool" where
  "stops data =
     (case data of
        None \<Rightarrow> True
      | Some d \<Rightarrow> (case next_link d of None \<Rightarrow> True | Some l \<Rightarrow> l = []))"

text \<open>
  The loop of \<^verbatim>\<open>fetchGenres\<close>. Its state is the accumulated list together with the
  page numbers handed to \<^verbatim>\<open>fetchPage\<close> so far, in order (each call is awaited before
  the next one starts).
\<close>

function fetchGenres_loop ::
  "'g envelope network \<Rightarrow> nat \<Rightarrow> nat \<Rightarrow> nat list \<times> 'g list \<Rightarrow> nat list \<times> 'g list" where
  "fetchGenres_loop net maxPages page (requested, allGenres) =
     (if page \<le> maxPages then
        (let data = fetchPage net genresUrl page [];
             allGenres' = concat_results allGenres data
         in if stops data then (requested @ [page], allGenres')
            else fetchGenres_loop net maxPages (Suc page) (requested @ [page], allGenres'))
      else (requested, allGenres))"
  by pat_completeness auto
termination
  by (relation "measure (\<lambda>(net, maxPages, page, st). Suc maxPages - page)") auto

declare fetchGenres_loop.simps [simp del]

definition fetchGenres_run :: "'g envelope network \<Rightarrow> nat \<Rightarrow> nat list \<times> 'g list" where
  "fetchGenres_run net maxPages = fetchGenres_loop net maxPages 1 ([], [])"

text \<open>
  \<^verbatim>\<open>fetchGenres(maxPages = 5)\<close> of api.js. Nothing in the \<^verbatim>\<open>try\<close> block can throw
  (\<^verbatim>\<open>fetchPage\<close> has caught everything), so the \<^verbatim>\<open>catch\<close> clause, which would return
  \<^verbatim>\<open>[]\<close>, has no branch here.
\<close>

definition fetchGenres :: "'g envelope network \<Rightarrow> nat \<Rightarrow> 'g list" where
  "fetchGenres net maxPages = snd (fetchGenres_run net maxPages)"

text \<open>\<^verbatim>\<open>fetchGenres()\<close> of fecth\_functions.js: the same loop with the bound 5 written in.\<close>

definition fetchGenres_legacy :: "'g envelope network \<Rightarrow> 'g list" where
  "fetchGenres_legacy net = snd (fetchGenres_loop net 5 1 ([], []))"

section \<open>ui-components.js: images with a fallback\<close>

text \<open>
  \<^verbatim>\<open>encodeURIComponent\<close> on a string held as its UTF-8 bytes: every byte outside
  the unreserved set becomes a percent sign and two upper-case hexadecimal digits.
\<close>

definition unreserved :: "char \<Rightarrow> bool" where
  "unreserved c =
     (c \<in> set (''ABCDEFGHIJKLMNOPQRSTUVWXYZabcdefghijklmnopqrstuvwxyz0123456789-_.!~*()''
                @ [CHR 0x27]))"

definition hex_char :: "nat \<Rightarrow> char" where
  "hex_char d = ''0123456789ABCDEF'' ! d"

definition percent_encode :: "char \<Rightarrow> string" where
  "percent_encode c =
     [CHR ''%'', hex_char ((of_char c :: nat) div 16), hex_char ((of_char c :: nat) mod 16)]"

definition encodeURIComponent :: "string \<Rightarrow> string" where
  "encodeURIComponent s = concat (map (\<lambda>c. if unreserved c then [c] else percent_encode c) s)"

definition apos :: string where
  "apos = [CHR 0x27]"

definition createFallbackImageUrl :: "string \<Rightarrow> nat \<Rightarrow> nat \<Rightarrow> string" where
  "createFallbackImageUrl text width height =
     (let encodedText = encodeURIComponent text
      in ''data:image/svg+xml,%3Csvg xmlns='http://www.w3.org/2000/svg' width='' @ apos
         @ string_of_nat width @ apos @ '' height='' @ apos
         @ string_of_nat height @ apos @ ''%3E%3Crect width='' @ apos
         @ string_of_nat width @ apos @ '' height='' @ apos
         @ string_of_nat height @ apos
         @ '' fill='%23666666'/%3E%3Ctext x='50%25' y='50%25' dominant-baseline='middle' text-anchor='middle' font-family='Arial' font-size='20' fill='white'%3E''
         @ encodedText @ ''%3C/text%3E%3C/svg%3E'')"

text \<open>The fallback of the older \<^verbatim>\<open>createMovieCard\<close> (html\_inject.js), sizes written in.\<close>

definition legacy_fallback_url :: "string \<Rightarrow> string" where
  "legacy_fallback_url movie_title =
     ''data:image/svg+xml,%3Csvg xmlns='http://www.w3.org/2000/svg' width='300' height='300'%3E%3Crect width='300' height='300' fill='%23666666'/%3E%3Ctext x='50%25' y='50%25' dominant-baseline='middle' text-anchor='middle' font-family='Arial' font-size='20' fill='white'%3E''
     @ encodeURIComponent movie_title @ ''%3C/text%3E%3C/svg%3E''"

text \<open>The fallback of the modal poster (modal.js): a fixed text, no title.\<close>

definition modal_fallback_url :: string where
  "modal_fallback_url =
     ''data:image/svg+xml,%3Csvg xmlns='http://www.w3.org/2000/svg' width='210' height='315'%3E%3Crect width='210' height='315' fill='%23666666'/%3E%3Ctext x='50%25' y='50%25' dominant-baseline='middle' text-anchor='middle' font-family='Arial' font-size='16' fill='white'%3EImage non disponible%3C/text%3E%3C/svg%3E''"

text \<open>
  The three \<^verbatim>\<open>onerror\<close> closures of the repository, as data: what each captured.
\<close>

datatype onerror_handler =
    SetupImageHandler string nat nat  \<comment> \<open>\<^verbatim>\<open>setupImage\<close>: altText, width, height\<close>
  | LegacyCardHandler string  \<comment> \<open>html\_inject.js \<^verbatim>\<open>createMovieCard\<close>: movie.title\<close>
  | ModalPosterHandler  \<comment> \<open>modal.js \<^verbatim>\<open>createModal\<close>\<close>

text \<open>
  An \<^verbatim>\<open>img\<close> element. \<open>loads\<close> lists every value assigned to \<^verbatim>\<open>src\<close>, in order:
  each assignment makes the browser load that source. \<open>errorHandled\<close> is the variable
  captured by the guarded closures.
\<close>

record image =
  src :: string
  alt :: string
  width_attr :: "nat option"
  onerror :: "onerror_handler option"
  errorHandled :: bool
  loads :: "string list"

definition set_src :: "image \<Rightarrow> string \<Rightarrow> image" where
  "set_src img url = img\<lparr>src := url, loads := loads img @ [url]\<rparr>"

text \<open>A source that the browser decodes in place, without a request.\<close>

definition is_data_url :: "string \<Rightarrow> bool" where
  "is_data_url url = (take 5 url = ''data:'')"

definition network_loads :: "image \<Rightarrow> string list" where
  "network_loads img = filter (\<lambda>url. \<not> is_data_url url) (loads img)"

text \<open>\<^verbatim>\<open>setupImage(imgElement, imageUrl, altText, width, height)\<close>; an empty URL is falsy.\<close>

definition truthy :: "string option \<Rightarrow> bool" where
  "truthy s = (case s of None \<Rightarrow> False | Some v \<Rightarrow> v \<noteq> [])"

definition setupImage :: "image \<Rightarrow> string option \<Rightarrow> string \<Rightarrow> nat \<Rightarrow> nat \<Rightarrow> image" where
  "setupImage imgElement imageUrl altText width height =
     (let img = imgElement\<lparr>alt := altText, errorHandled := False,
                            onerror := Some (SetupImageHandler altText width height)\<rparr>
      in if truthy imageUrl then set_src img (the imageUrl)
         else set_src img (createFallbackImageUrl altText width height))"

text \<open>The browser reports a failed load: the installed handler, if any, runs.\<close>

definition error_event :: "image \<Rightarrow> image" where
  "error_event img =
     (case onerror img of
        None \<Rightarrow> img
      | Some (SetupImageHandler altText width height) \<Rightarrow>
          if \<not> errorHandled img
          then set_src (img\<lparr>errorHandled := True, onerror := None\<rparr>)
                 (createFallbackImageUrl altText width height)
          else img
      | Some (LegacyCardHandler movie_title) \<Rightarrow>
          if \<not> errorHandled img
          then set_src (img\<lparr>errorHandled := True, onerror := None\<rparr>)
                 (legacy_fallback_url movie_title)
          else img
      | Some ModalPosterHandler \<Rightarrow> set_src img modal_fallback_url)"

section \<open>Movies and cards\<close>

record movie =
  movie_id :: nat
  title :: string
  image_url :: "string option"
  long_description :: "string option"
  description :: "string option"

text \<open>
  A card cloned from \<^verbatim>\<open>#movie-card-template\<close>: the text of \<^verbatim>\<open>.movie-title\<close>, the
  \<^verbatim>\<open>data-movie-id\<close> of \<^verbatim>\<open>.details-btn\<close> and the \<^verbatim>\<open>.movie-image\<close>. The template,
  when the page has one, carries these three slots.
\<close>

record card =
  title_text :: string
  movieId :: string
  card_image :: image

text \<open>\<^verbatim>\<open>createMovieCard\<close> of ui-components.js; \<open>None\<close> is the \<^verbatim>\<open>null\<close> of a missing template.\<close>

definition createMovieCard :: "card option \<Rightarrow> movie \<Rightarrow> card option" where
  "createMovieCard template m =
     (case template of
        None \<Rightarrow> None
      | Some content \<Rightarrow>
          Some (content\<lparr>title_text := title m,
                         movieId := string_of_nat (movie_id m),
                         card_image := setupImage (card_image content) (image_url m)
                                         (''Affiche '' @ title m) 300 300\<rparr>))"

text \<open>\<^verbatim>\<open>createMovieCard\<close> of html\_inject.js, with its own guarded closure.\<close>

definition createMovieCard_legacy :: "card option \<Rightarrow> movie \<Rightarrow> card option" where
  "createMovieCard_legacy template m =
     (case template of
        None \<Rightarrow> None
      | Some content \<Rightarrow>
          (let img = (card_image content)\<lparr>alt := ''Affiche '' @ title m, errorHandled := False,
                                           onerror := Some (LegacyCardHandler (title m))\<rparr>;
               img = (if truthy (image_url m) then set_src img (the (image_url m))
                      else set_src img (legacy_fallback_url (title m)))
           in Some (content\<lparr>title_text := title m,
                            movieId := string_of_nat (movie_id m),
                            card_image := img\<rparr>)))"

text \<open>
  The banner of the best movie: the four elements \<^verbatim>\<open>updateBestMovieDisplay\<close> looks up,
  each possibly missing from the page.
\<close>

record banner =
  imageElement :: "image option"
  titleElement :: "string option"
  descriptionElement :: "string option"
  buttonElement :: "string option"

definition or_else :: "string option \<Rightarrow> string \<Rightarrow> string" where
  "or_else s d = (if truthy s then the s else d)"

definition updateBestMovieDisplay :: "banner \<Rightarrow> movie \<Rightarrow> banner" where
  "updateBestMovieDisplay b m =
     (case (imageElement b, titleElement b, descriptionElement b, buttonElement b) of
        (Some img, Some _, Some _, Some _) \<Rightarrow>
          b\<lparr>imageElement := Some (setupImage (img\<lparr>width_attr := Some 225\<rparr>) (image_url m)
                                     (''Affiche '' @ title m) 225 338),
            titleElement := Some (or_else (Some (title m)) ''Titre inconnu''),
            descriptionElement :=
              Some (or_else (long_description m)
                      (or_else (description m) ''Aucune description disponible.'')),
            buttonElement := Some (string_of_nat (movie_id m))\<rparr>
      | _ \<Rightarrow> b)"

text \<open>
  The poster of the modal, the part of \<^verbatim>\<open>createModal\<close> (modal.js) that fills
  \<^verbatim>\<open>.movie-poster-img\<close>: \<^verbatim>\<open>src = movie.image_url || ''\<close>, then the alt text, then an
  unguarded handler.
\<close>

definition createModal_poster :: "image \<Rightarrow> movie \<Rightarrow> image" where
  "createModal_poster poster m =
     (set_src poster (or_else (image_url m) []))
       \<lparr>alt := ''Affiche '' @ title m, onerror := Some ModalPosterHandler\<rparr>"

section \<open>Cards as nodes of the page\<close>

text \<open>
  Nodes have an identity. The page holds the card fragments that exist, by identity,
  the first identity not yet in use, and the content of \<^verbatim>\<open>#movie-card-template\<close>
  when the page has that template.
\<close>

record page =
  nodes :: "nat \<rightharpoonup> card"
  next_node :: nat
  template_content :: "nat option"

text \<open>\<^verbatim>\<open>node.cloneNode(true)\<close>: a new node with a copy of what the old one holds.\<close>

definition cloneNode :: "page \<Rightarrow> nat \<Rightarrow> nat \<times> page" where
  "cloneNode p n =
     (next_node p,
      p\<lparr>nodes := (nodes p)(next_node p := nodes p n), next_node := Suc (next_node p)\<rparr>)"

text \<open>An assignment to a property of the node \<open>n\<close>.\<close>

definition assign :: "page \<Rightarrow> nat \<Rightarrow> (card \<Rightarrow> card) \<Rightarrow> page" where
  "assign p n f = p\<lparr>nodes := (nodes p)(n := map_option f (nodes p n))\<rparr>"

text \<open>
  \<^verbatim>\<open>createMovieCard\<close> of ui-components.js, statement by statement, on such a page:
  the node it returns (\<open>None\<close> for \<^verbatim>\<open>null\<close>) and the page as the call leaves it.
\<close>

definition createMovieCard_node :: "page \<Rightarrow> movie \<Rightarrow> nat option \<times> page" where
  "createMovieCard_node p m =
     (case template_content p of
        None \<Rightarrow> (None, p)
      | Some template \<Rightarrow>
          (case cloneNode p template of (movieCard, p1) \<Rightarrow>
             (let p2 = assign p1 movieCard (\<lambda>c. c\<lparr>title_text := title m\<rparr>);
                  p3 = assign p2 movieCard (\<lambda>c. c\<lparr>movieId := string_of_nat (movie_id m)\<rparr>);
                  p4 = assign p3 movieCard
                         (\<lambda>c. c\<lparr>card_image := setupImage (card_image c) (image_url m)
                                                  (''Affiche '' @ title m) 300 300\<rparr>)
              in (Some movieCard, p4))))"

text \<open>\<^verbatim>\<open>createMovieCard\<close> of html\_inject.js, likewise.\<close>

definition createMovieCard_legacy_node :: "page \<Rightarrow> movie \<Rightarrow> nat option \<times> page" where
  "createMovieCard_legacy_node p m =
     (case template_content p of
        None \<Rightarrow> (None, p)
      | Some template \<Rightarrow>
          (case cloneNode p template of (movieCard, p1) \<Rightarrow>
             (let p2 = assign p1 movieCard (\<lambda>c. c\<lparr>title_text := title m\<rparr>);
                  p3 = assign p2 movieCard (\<lambda>c. c\<lparr>movieId := string_of_nat (movie_id m)\<rparr>);
                  p4 = assign p3 movieCard
                         (\<lambda>c. c\<lparr>card_image := (card_image c)\<lparr>alt := ''Affiche '' @ title m\<rparr>\<rparr>);
                  p5 = assign p4 movieCard
                         (\<lambda>c. c\<lparr>card_image := (card_image c)\<lparr>errorHandled := False,
                                    onerror := Some (LegacyCardHandler (title m))\<rparr>\<rparr>);
                  p6 = assign p5 movieCard
                         (\<lambda>c. c\<lparr>card_image :=
                                  (if truthy (image_url m)
                                   then set_src (card_image c) (the (image_url m))
                                   else set_src (card_image c) (legacy_fallback_url (title m)))\<rparr>)
              in (Some movieCard, p6))))"

text \<open>
  A page is in order when its template, if it has one, is a node that exists and that
  was made before the next node will be.
\<close>

definition page_in_order :: "page \<Rightarrow> bool" where
  "page_in_order p =
     (case template_content p of
        None \<Rightarrow> True
      | Some template \<Rightarrow> template < next_node p \<and> nodes p template \<noteq> None)"

section \<open>categories.js and html\_inject.js: rendering a category\<close>

text \<open>
  The page: the card template, if any, and the grids that a selector finds, each with
  the cards it shows.
\<close>

record document =
  movie_card_template :: "card option"
  grids :: "string \<rightharpoonup> card list"

text \<open>
  \<^verbatim>\<open>displayCategoryMovies\<close> (categories.js). It returns early, leaving the page as it
  is, when no movie came back or the container is missing; a \<^verbatim>\<open>null\<close> card is skipped.
\<close>

definition displayCategoryMovies ::
  "movie envelope network \<Rightarrow> document \<Rightarrow> string \<Rightarrow> nat \<Rightarrow> string \<Rightarrow> document" where
  "displayCategoryMovies net doc containerSelector movieCount queryParams =
     (let movies = fetchMultiplePages net movieCount queryParams
      in if length movies = 0 then doc
         else (case grids doc containerSelector of
                 None \<Rightarrow> doc
               | Some _ \<Rightarrow>
                   doc\<lparr>grids := (grids doc)(containerSelector \<mapsto>
                      List.map_filter (createMovieCard (movie_card_template doc)) movies)\<rparr>))"

text \<open>
  \<^verbatim>\<open>displayCategory\<close> (html\_inject.js). It appends whatever \<^verbatim>\<open>createMovieCard\<close>
  returns; with the template missing that is \<^verbatim>\<open>null\<close> and \<^verbatim>\<open>appendChild\<close> throws
  on the first movie, after the grid has been emptied. The result is the exception, if
  any, and the page as the call leaves it.
\<close>

definition displayCategory ::
  "movie envelope network \<Rightarrow> document \<Rightarrow> string \<Rightarrow> nat \<Rightarrow> string \<Rightarrow> js_exn option \<times> document" where
  "displayCategory net doc containerSelector movieCount queryParams =
     (case displayCategory_movies net movieCount queryParams of
        None \<Rightarrow> (None, doc)
      | Some movies \<Rightarrow>
          (case grids doc containerSelector of
             None \<Rightarrow> (None, doc)
           | Some _ \<Rightarrow>
               if movies \<noteq> [] \<and> movie_card_template doc = None
               then (Some TypeError, doc\<lparr>grids := (grids doc)(containerSelector \<mapsto> [])\<rparr>)
               else (None, doc\<lparr>grids := (grids doc)(containerSelector \<mapsto>
                      List.map_filter (createMovieCard_legacy (movie_card_template doc)) movies)\<rparr>)))"

section \<open>categories.js and html\_inject.js: the default genres of the two dropdowns\<close>

record genre =
  name :: string

record genre_choice =
  label :: string
  "value" :: string

text \<open>\<^verbatim>\<open>genresFromAPI.map(genre => ({ label: genre.name, value: genre.name }))\<close>\<close>

definition availableGenres :: "genre list \<Rightarrow> genre_choice list" where
  "availableGenres genresFromAPI = map (\<lambda>g. \<lparr>label = name g, value = name g\<rparr>) genresFromAPI"

text \<open>Reading \<^verbatim>\<open>array[i]\<close>: \<^verbatim>\<open>undefined\<close> past the end.\<close>

definition at_index :: "'a list \<Rightarrow> nat \<Rightarrow> 'a option" where
  "at_index xs i = (if i < length xs then Some (xs ! i) else None)"

text \<open>\<^verbatim>\<open>a || b\<close> on objects: an object is truthy, \<^verbatim>\<open>undefined\<close> is not.\<close>

definition js_or :: "'a option \<Rightarrow> 'a option \<Rightarrow> 'a option" where
  "js_or a b = (case a of Some x \<Rightarrow> Some x | None \<Rightarrow> b)"

text \<open>
  The \<^verbatim>\<open>defaultGenre\<close> of \<^verbatim>\<open>dropdown-1\<close> and of \<^verbatim>\<open>dropdown-2\<close>; the outer \<open>None\<close>
  is the early return on an empty genre list. First \<^verbatim>\<open>initializeCategories\<close>
  (categories.js), then \<^verbatim>\<open>injectCategories\<close> (html\_inject.js).
\<close>

definition initializeCategories_defaults ::
  "genre list \<Rightarrow> (genre_choice option \<times> genre_choice option) option" where
  "initializeCategories_defaults genresFromAPI =
     (if length genresFromAPI = 0 then None
      else (let available = availableGenres genresFromAPI
            in Some (js_or (at_index available 2) (at_index available 0),
                     js_or (at_index available 3) (at_index available 1))))"

definition injectCategories_defaults ::
  "genre list \<Rightarrow> (genre_choice option \<times> genre_choice option) option" where
  "injectCategories_defaults genresFromAPI =
     (if length genresFromAPI = 0 then None
      else (let available = availableGenres genresFromAPI
            in Some (at_index available 2, at_index available 3)))"

text \<open>
  The options of the \<^verbatim>\<open>select\<close> that \<^verbatim>\<open>createGenreDropdown\<close> builds (the same in
  ui-components.js and html\_inject.js). \<^verbatim>\<open>genre.value === defaultGenre.value\<close> throws
  on the first genre when \<^verbatim>\<open>defaultGenre\<close> is \<^verbatim>\<open>undefined\<close>. The code sets
  \<^verbatim>\<open>option.selected = true\<close> on every genre with the default's value; a \<^verbatim>\<open>select\<close>
  shows one option, the last one that was added with \<^verbatim>\<open>selected\<close> set, and the first
  option when there was none.
\<close>

record select_option =
  option_value :: string
  textContent :: string
  selected :: bool

definition shown_index :: "bool list \<Rightarrow> nat" where
  "shown_index marked =
     (case filter (\<lambda>i. marked ! i) [0..<length marked] of
        [] \<Rightarrow> 0
      | i # rest \<Rightarrow> last (i # rest))"

definition createGenreDropdown ::
  "genre_choice list \<Rightarrow> genre_choice option \<Rightarrow> js_exn + select_option list" where
  "createGenreDropdown genres defaultGenre =
     (if genres = [] then Inr []
      else (case defaultGenre of
              None \<Rightarrow> Inl TypeError
            | Some d \<Rightarrow>
                (let shown = shown_index (map (\<lambda>g. value g = value d) genres)
                 in Inr (map (\<lambda>(i, g). \<lparr>option_value = value g, textContent = label g,
                                          selected = (i = shown)\<rparr>)
                           (enumerate 0 genres)))))"

section \<open>modal.js: closing the modal\<close>

text \<open>
  Elements are named by numbers. The state that \<^verbatim>\<open>closeModal\<close> touches:
  \<^verbatim>\<open>this.modal\<close>, the parent of each element (\<^verbatim>\<open>parentElement\<close>, \<open>None\<close> for a
  detached one) and \<^verbatim>\<open>document.body.style.overflow\<close>.
\<close>

record modal_state =
  modal :: "nat option"
  parentElement :: "nat \<rightharpoonup> nat"
  overflow :: string

definition closeModal :: "modal_state \<Rightarrow> modal_state" where
  "closeModal s =
     (case modal s of
        None \<Rightarrow> s
      | Some m \<Rightarrow>
          (case parentElement s m of
             None \<Rightarrow> s
           | Some _ \<Rightarrow> s\<lparr>parentElement := (parentElement s)(m := None),
                          modal := None,
                          overflow := []\<rparr>))"

section \<open>modal.js: formatting the box office\<close>

text \<open>
  A JavaScript number: \<open>Finite r\<close> is the double whose value is the rational \<open>r\<close>
  (both zeros are \<open>Finite 0\<close>).
\<close>

datatype js_number = NaN | PosInfinity | NegInfinity | Finite rat

text \<open>
  The values \<^verbatim>\<open>formatBoxOffice\<close> can be given: \<^verbatim>\<open>worldwide_gross_income\<close> is a
  field of a parsed JSON document, so it is missing, \<^verbatim>\<open>null\<close>, a boolean, a number,
  a string, an object or an array. Strings are held as UTF-8 bytes; the two regular
  expressions of the function only look at ASCII characters. An object is given by
  the names of its own entries, none of which is a function. An array is given by
  what \<^verbatim>\<open>Number(amount)\<close> makes of it: the number read from the join of its elements,
  or the exception thrown while an element is turned into a string.
\<close>

datatype js_value =
    Undefined
  | Null
  | Bool bool
  | Num js_number
  | Str string
  | Obj "string list"
  | Arr "js_exn + js_number"

text \<open>
  What the platform prints in the cases this theory does not compute: \<^verbatim>\<open>String(x)\<close>
  for a double \<open>x = m / 2 ^ k\<close> from \<open>10 ^ 21\<close> on (exponent notation);
  \<^verbatim>\<open>x.toLocaleString('en-US')\<close> for a finite double that is not whole or lies beyond
  \<open>2 ^ 53\<close>; \<^verbatim>\<open>toLocaleString\<close> with at most one fraction digit for the double read
  from a decimal of more than 15 digits; and the number read from a string.
\<close>

record platform =
  number_toString :: "nat \<times> int \<Rightarrow> string"
  toLocaleString_other :: "rat \<Rightarrow> string"
  toLocaleString_long :: "nat \<times> nat \<Rightarrow> string"
  stringToNumber :: "string \<Rightarrow> js_number"

definition non_renseigne :: string where
  "non_renseigne = ''Non renseign'' @ [CHR 0xC3, CHR 0xA9]"

text \<open>
  \<^verbatim>\<open>n.toLocaleString('en-US')\<close> on whole numbers: groups of three digits separated by
  commas, a minus sign in front of a negative number.
\<close>

definition pad3 :: "nat \<Rightarrow> string" where
  "pad3 k = [digit_char (k div 100), digit_char (k div 10 mod 10), digit_char (k mod 10)]"

function group_digits :: "nat \<Rightarrow> string" where
  "group_digits n =
     (if n < 1000 then string_of_nat n
      else group_digits (n div 1000) @ '','' @ pad3 (n mod 1000))"
  by pat_completeness auto
termination
  by (relation "measure id") auto

declare group_digits.simps [simp del]

definition toLocaleString_int :: "int \<Rightarrow> string" where
  "toLocaleString_int i =
     (if i < 0 then ''-'' @ group_digits (nat (- i)) else group_digits (nat i))"

text \<open>
  \<^verbatim>\<open>numAmount / 1000000\<close> is a division of doubles: the result is the double nearest
  to the quotient, ties to the even mantissa. For positive whole numbers \<open>a\<close> and \<open>b\<close>,
  \<open>double_div a b = (m, k)\<close> stands for the double \<open>m / 2 ^ k\<close> (or \<open>m * 2 ^ (- k)\<close>
  for a negative \<open>k\<close>), with a mantissa \<open>m\<close> of 53 bits. (Exponents out of the range
  of a double do not occur for quotients between \<open>1\<close> and \<open>10 ^ 300\<close>.)
\<close>

function bit_length :: "nat \<Rightarrow> nat" where
  "bit_length n = (if n = 0 then 0 else Suc (bit_length (n div 2)))"
  by pat_completeness auto
termination
  by (relation "measure id") auto

declare bit_length.simps [simp del]

definition round_half_even :: "nat \<Rightarrow> nat \<Rightarrow> nat" where
  "round_half_even a b =
     (let q = a div b; r = a mod b
      in if 2 * r < b then q
         else if b < 2 * r then q + 1
         else if even q then q else q + 1)"

definition scaled :: "nat \<Rightarrow> nat \<Rightarrow> int \<Rightarrow> nat \<times> nat" where
  "scaled a b k = (if 0 \<le> k then (a * 2 ^ nat k, b) else (a, b * 2 ^ nat (- k)))"

definition double_div :: "nat \<Rightarrow> nat \<Rightarrow> nat \<times> int" where
  "double_div a b =
     (let k0 = 53 + int (bit_length b) - int (bit_length a);
          k = (if 2 ^ 53 * snd (scaled a b k0) \<le> fst (scaled a b k0) then k0 - 1 else k0)
      in (round_half_even (fst (scaled a b k)) (snd (scaled a b k)), k))"

text \<open>
  \<^verbatim>\<open>x.toFixed(1)\<close> for a double \<open>x = m / 2 ^ k\<close> below \<open>10 ^ 21\<close>: the integer \<open>n\<close>
  with \<open>n / 10\<close> nearest to the exact value of \<open>x\<close>, the larger one on a tie, printed
  with one digit after the point.
\<close>

definition toFixed1 :: "nat \<times> int \<Rightarrow> string" where
  "toFixed1 x =
     (case x of (m, k) \<Rightarrow>
        (let n = (if 0 \<le> k then (20 * m + 2 ^ nat k) div (2 * 2 ^ nat k)
                  else 10 * m * 2 ^ nat (- k))
         in string_of_nat (n div 10) @ ''.'' @ [digit_char (n mod 10)]))"

definition at_least_1e21 :: "nat \<times> int \<Rightarrow> bool" where
  "at_least_1e21 x =
     (case x of (m, k) \<Rightarrow>
        if 0 \<le> k then 10 ^ 21 * 2 ^ nat k \<le> m else 10 ^ 21 \<le> m * 2 ^ nat (- k))"

text \<open>
  \<^verbatim>\<open>(numAmount / 1000000).toFixed(1)\<close> for a finite \<open>numAmount\<close> of at least a million.
  The argument \<open>1\<close> is in the range that \<^verbatim>\<open>toFixed\<close> accepts, so there is no
  \<^verbatim>\<open>RangeError\<close>.
\<close>

definition millions_toFixed :: "platform \<Rightarrow> rat \<Rightarrow> string" where
  "millions_toFixed P r =
     (case quotient_of r of (a, b) \<Rightarrow>
        (let x = double_div (nat a) (nat b * 1000000)
         in if at_least_1e21 x then number_toString P x else toFixed1 x))"

text \<open>
  \<^verbatim>\<open>numAmount.toLocaleString('en-US')\<close> for a finite \<open>numAmount\<close> below a million:
  computed for the whole numbers that a double counts exactly.
\<close>

definition toLocaleString_en :: "platform \<Rightarrow> rat \<Rightarrow> string" where
  "toLocaleString_en P r =
     (if r = of_int \<lfloor>r\<rfloor> \<and> \<bar>r\<bar> \<le> 2 ^ 53 then toLocaleString_int \<lfloor>r\<rfloor>
      else toLocaleString_other P r)"

text \<open>\<^verbatim>\<open>amount.match(/[\d,.]+/)\<close>: the first longest run of digits, commas and points.\<close>

definition is_digit :: "char \<Rightarrow> bool" where
  "is_digit c = (c \<in> set ''0123456789'')"

definition in_number_class :: "char \<Rightarrow> bool" where
  "in_number_class c = (is_digit c \<or> c = CHR '','' \<or> c = CHR ''.'')"

definition match_number :: "string \<Rightarrow> string option" where
  "match_number amount =
     (let run = takeWhile in_number_class (dropWhile (\<lambda>c. \<not> in_number_class c) amount)
      in if run = [] then None else Some run)"

text \<open>
  \<^verbatim>\<open>parseFloat\<close> on a string of digits and points reads digits, then optionally a
  point and digits; it is \<^verbatim>\<open>NaN\<close> (\<open>None\<close>) when there is no digit at the front, nor
  after a leading point. Otherwise its result is the double nearest to the decimal
  \<open>d / 10 ^ f\<close> that was read, and \<open>Some (d, f)\<close> stands for that double.
\<close>

definition digit_value :: "char \<Rightarrow> nat" where
  "digit_value c = of_char c - 48"

definition nat_of_digits :: "string \<Rightarrow> nat" where
  "nat_of_digits ds = foldl (\<lambda>n c. 10 * n + digit_value c) 0 ds"

definition parseFloat :: "string \<Rightarrow> (nat \<times> nat) option" where
  "parseFloat s =
     (let ip = takeWhile is_digit s;
          rest = dropWhile is_digit s;
          fp = (case rest of
                  [] \<Rightarrow> []
                | c # r \<Rightarrow> if c = CHR ''.'' then takeWhile is_digit r else [])
      in if ip = [] \<and> fp = [] then None
         else Some (nat_of_digits (ip @ fp), length fp))"

text \<open>
  \<^verbatim>\<open>toLocaleString('en-US', { minimumFractionDigits: 0, maximumFractionDigits: 1 })\<close>
  on the double read from the decimal \<open>d / 10 ^ f\<close>. A decimal of at most 15 digits is
  what its double prints back as, and the result is that decimal rounded to tenths,
  half away from zero, grouped, the fraction dropped when it is zero.
\<close>

definition format_tenths :: "nat \<times> nat \<Rightarrow> string" where
  "format_tenths x =
     (case x of (d, f) \<Rightarrow>
        (let t = (20 * d + 10 ^ f) div (2 * 10 ^ f)
         in group_digits (t div 10)
            @ (if t mod 10 = 0 then [] else ''.'' @ [digit_char (t mod 10)])))"

definition toLocaleString_en_1 :: "platform \<Rightarrow> nat \<times> nat \<Rightarrow> string" where
  "toLocaleString_en_1 P x =
     (if fst x < 10 ^ 15 then format_tenths x else toLocaleString_long P x)"

text \<open>\<^verbatim>\<open>!amount\<close>: the falsy values.\<close>

definition falsy :: "js_value \<Rightarrow> bool" where
  "falsy v =
     (case v of
        Undefined \<Rightarrow> True
      | Null \<Rightarrow> True
      | Bool b \<Rightarrow> \<not> b
      | Num n \<Rightarrow> n = NaN \<or> n = Finite 0
      | Str text \<Rightarrow> text = []
      | Obj _ \<Rightarrow> False
      | Arr _ \<Rightarrow> False)"

text \<open>
  \<^verbatim>\<open>Number(amount)\<close>. An object has no primitive value of its own, and one that
  carries an own entry named \<^verbatim>\<open>toString\<close> (which is not a function) cannot be turned
  into a primitive: that is a \<^verbatim>\<open>TypeError\<close>. Any other object reads as
  \<^verbatim>\<open>"[object Object]"\<close>, which is not a number.
\<close>

definition toNumber :: "platform \<Rightarrow> js_value \<Rightarrow> js_exn + js_number" where
  "toNumber P v =
     (case v of
        Undefined \<Rightarrow> Inr NaN
      | Null \<Rightarrow> Inr (Finite 0)
      | Bool b \<Rightarrow> Inr (Finite (if b then 1 else 0))
      | Num n \<Rightarrow> Inr n
      | Str text \<Rightarrow> Inr (stringToNumber P text)
      | Obj keys \<Rightarrow> if ''toString'' \<in> set keys then Inl TypeError else Inr NaN
      | Arr outcome \<Rightarrow> outcome)"

text \<open>
  The end of \<^verbatim>\<open>formatBoxOffice\<close>, from \<^verbatim>\<open>if (isNaN(numAmount)) return amount\<close> on.
  Infinity is at least a million and prints as \<^verbatim>\<open>Infinity\<close> with \<^verbatim>\<open>toFixed\<close>; minus
  infinity is below a million and prints as a minus sign and the infinity sign (three
  bytes in UTF-8) with \<^verbatim>\<open>toLocaleString\<close>.
\<close>

definition format_number :: "platform \<Rightarrow> js_value \<Rightarrow> js_number \<Rightarrow> js_value" where
  "format_number P amount numAmount =
     (case numAmount of
        NaN \<Rightarrow> amount
      | PosInfinity \<Rightarrow> Str (''$'' @ ''Infinity'' @ ''m'')
      | NegInfinity \<Rightarrow> Str (''$'' @ ''-'' @ [CHR 0xE2, CHR 0x88, CHR 0x9E])
      | Finite r \<Rightarrow>
          if 1000000 \<le> r then Str (''$'' @ millions_toFixed P r @ ''m'')
          else Str (''$'' @ toLocaleString_en P r))"

text \<open>\<^verbatim>\<open>formatBoxOffice(amount)\<close>: \<open>Inl\<close> is a thrown exception, \<open>Inr\<close> the value returned.\<close>

definition formatBoxOffice :: "platform \<Rightarrow> js_value \<Rightarrow> js_exn + js_value" where
  "formatBoxOffice P amount =
     (if falsy amount then Inr (Str non_renseigne)
      else (case amount of
              Str text \<Rightarrow>
                if take 1 text = ''$'' then Inr amount
                else (case match_number text of
                        None \<Rightarrow> Inr amount
                      | Some m \<Rightarrow>
                          (case parseFloat (filter (\<lambda>c. c \<noteq> CHR '','') m) of
                             None \<Rightarrow> Inr amount
                           | Some numAmount \<Rightarrow>
                               Inr (Str (''$'' @ toLocaleString_en_1 P numAmount @ ''m''))))
            | _ \<Rightarrow>
                (case toNumber P amount of
                   Inl e \<Rightarrow> Inl e
                 | Inr numAmount \<Rightarrow> Inr (format_number P amount numAmount))))"

section \<open>Sample data\<close>

definition sample_movie :: "nat \<Rightarrow> movie" where
  "sample_movie i = \<lparr>movie_id = i, title = ''Up'', image_url = None,
                      long_description = None, description = None\<rparr>"

definition page_response :: "'a list \<Rightarrow> string option \<Rightarrow> 'a envelope response" where
  "page_response items link = \<lparr>status = 200, json = Some \<lparr>results = Some items, next_link = link\<rparr>\<rparr>"

text \<open>Seven movies on two pages.\<close>

definition two_pages_net :: "movie envelope network" where
  "two_pages_net url =
     (if url = ''http://127.0.0.1:8000/api/v1/titles/?page=1&sort_by=-imdb_score''
      then Some (page_response (map sample_movie [1, 2, 3, 4, 5]) (Some ''page=2''))
      else if url = ''http://127.0.0.1:8000/api/v1/titles/?page=2&sort_by=-imdb_score''
      then Some (page_response (map sample_movie [6, 7]) None)
      else None)"

text \<open>The first page answers 500, the second one is served.\<close>

definition first_page_500_net :: "movie envelope network" where
  "first_page_500_net url =
     (if url = ''http://127.0.0.1:8000/api/v1/titles/?page=1&sort_by=-imdb_score''
      then Some \<lparr>status = 500, json = None\<rparr>
      else if url = ''http://127.0.0.1:8000/api/v1/titles/?page=2&sort_by=-imdb_score''
      then Some (page_response (map sample_movie [6, 7, 8, 9, 10]) None)
      else None)"

text \<open>The first page is served, the second one answers 500.\<close>

definition second_page_500_net :: "movie envelope network" where
  "second_page_500_net url =
     (if url = ''http://127.0.0.1:8000/api/v1/titles/?page=1&sort_by=-imdb_score''
      then Some (page_response (map sample_movie [1, 2, 3, 4, 5]) (Some ''page=2''))
      else if url = ''http://127.0.0.1:8000/api/v1/titles/?page=2&sort_by=-imdb_score''
      then Some \<lparr>status = 500, json = None\<rparr>
      else None)"

definition blank_image :: image where
  "blank_image = \<lparr>src = [], alt = [], width_attr = None, onerror = None,
                   errorHandled = False, loads = []\<rparr>"

definition blank_card :: card where
  "blank_card = \<lparr>title_text = [], movieId = [], card_image = blank_image\<rparr>"

definition sample_document :: document where
  "sample_document = \<lparr>movie_card_template = Some blank_card,
                       grids = [''.category-top-rated .movies-grid'' \<mapsto> []]\<rparr>"

definition three_genres :: "genre list" where
  "three_genres = [\<lparr>name = ''Action''\<rparr>, \<lparr>name = ''Adult''\<rparr>, \<lparr>name = ''Adventure''\<rparr>]"

section \<open>What the aggregator is specified to return\<close>

text \<open>The results carried by an envelope, and by the envelopes that are not null.\<close>

definition envelope_results :: "'m envelope \<Rightarrow> 'm list" where
  "envelope_results e = (case results e of None \<Rightarrow> [] | Some rs \<Rightarrow> rs)"

definition successful :: "'r option list \<Rightarrow> 'r list" where
  "successful responses = List.map_filter id responses"

definition pages_concat :: "(nat \<Rightarrow> 'm envelope option) \<Rightarrow> nat \<Rightarrow> 'm list" where
  "pages_concat fetchOne n =
     concat (map envelope_results (successful (map fetchOne [1..<Suc n])))"

text \<open>What one response adds to the list: nothing for \<^verbatim>\<open>null\<close>.\<close>

definition contribution :: "'m envelope option \<Rightarrow> 'm list" where
  "contribution r = (case r of None \<Rightarrow> [] | Some e \<Rightarrow> envelope_results e)"

text \<open>A response that is an envelope with results.\<close>

definition has_results :: "'m envelope option \<Rightarrow> bool" where
  "has_results r = (case r of None \<Rightarrow> False | Some e \<Rightarrow> results e \<noteq> None)"

text \<open>A backend that serves a catalogue five items a page; a page past the end may fail.\<close>

definition page_of :: "'m list \<Rightarrow> nat \<Rightarrow> 'm list" where
  "page_of catalogue page = take 5 (drop (5 * (page - 1)) catalogue)"

definition serves :: "(nat \<Rightarrow> 'm envelope option) \<Rightarrow> nat \<Rightarrow> 'm list \<Rightarrow> bool" where
  "serves fetchOne n catalogue =
     list_all (\<lambda>page. case fetchOne page of
                        None \<Rightarrow> page_of catalogue page = []
                      | Some e \<Rightarrow> results e = Some (page_of catalogue page)) [1..<Suc n]"

section \<open>What the genre aggregator is specified to return\<close>

definition genre_page :: "'g envelope network \<Rightarrow> nat \<Rightarrow> 'g envelope option" where
  "genre_page net page = fetchPage net genresUrl page []"

text \<open>
  The page at which the aggregation ends: the first of the pages \<open>1\<close> to \<open>maxPages\<close>
  whose envelope is null or has a falsy \<^verbatim>\<open>next\<close>, and \<open>maxPages\<close> when there is none.
\<close>

definition stop_page :: "(nat \<Rightarrow> 'g envelope option) \<Rightarrow> nat \<Rightarrow> nat" where
  "stop_page fetchOne maxPages =
     (case find (\<lambda>page. stops (fetchOne page)) [1..<Suc maxPages] of
        Some page \<Rightarrow> page
      | None \<Rightarrow> maxPages)"

section \<open>What an image slot is specified to show\<close>

text \<open>
  The placeholder is shown at once: it is the source, it is the one load that was
  started, and no request left for the network.
\<close>

definition shows_placeholder :: "image \<Rightarrow> image \<Rightarrow> string \<Rightarrow> bool" where
  "shows_placeholder before after placeholder =
     (src after = placeholder
      \<and> loads after = loads before @ [placeholder]
      \<and> network_loads after = network_loads before)"

text \<open>
  The poster is requested; when its load fails the placeholder replaces it, and a
  second failure changes nothing.
\<close>

definition falls_back_once :: "image \<Rightarrow> image \<Rightarrow> string \<Rightarrow> string \<Rightarrow> bool" where
  "falls_back_once before after url placeholder =
     (src after = url
      \<and> loads after = loads before @ [url]
      \<and> src (error_event after) = placeholder
      \<and> loads (error_event after) = loads before @ [url, placeholder]
      \<and> error_event (error_event after) = error_event after)"

section \<open>More sample data\<close>

text \<open>A response with status 200 whose body is not JSON; any other request is rejected.\<close>

definition not_json_net :: "movie envelope network" where
  "not_json_net url =
     (if url = ''http://127.0.0.1:8000/api/v1/titles/?page=1&sort_by=-imdb_score''
      then Some \<lparr>status = 200, json = None\<rparr>
      else None)"

text \<open>Genres on three pages, the second of which has no \<^verbatim>\<open>next\<close> link.\<close>

definition genres_net :: "genre envelope network" where
  "genres_net url =
     (if url = ''http://127.0.0.1:8000/api/v1/genres/?page=1''
      then Some (page_response [\<lparr>name = ''Action''\<rparr>, \<lparr>name = ''Adult''\<rparr>] (Some ''page=2''))
      else if url = ''http://127.0.0.1:8000/api/v1/genres/?page=2''
      then Some (page_response [\<lparr>name = ''Adventure''\<rparr>] None)
      else if url = ''http://127.0.0.1:8000/api/v1/genres/?page=3''
      then Some (page_response [\<lparr>name = ''Animation''\<rparr>] None)
      else None)"

text \<open>A banner with its four elements, and a movie that has a poster.\<close>

definition sample_banner :: banner where
  "sample_banner = \<lparr>imageElement = Some blank_image, titleElement = Some [],
                     descriptionElement = Some [], buttonElement = Some []\<rparr>"

definition movie_with_poster :: movie where
  "movie_with_poster = \<lparr>movie_id = 1, title = ''Up'', image_url = Some ''http://img/up.jpg'',
                         long_description = None, description = None\<rparr>"



definition sample_page :: page where
  "sample_page = \<lparr>nodes = [0 \<mapsto> blank_card], next_node = 1, template_content = Some 0\<rparr>"

text \<open>The load of the image of a card fails.\<close>

definition image_fails :: "card \<Rightarrow> card" where
  "image_fails c = c\<lparr>card_image := error_event (card_image c)\<rparr>"

section \<open>Properties\<close>

lemma pagesNeeded_div: "pagesNeeded n = (n + 4) div 5"
proof -
  have "\<lceil>real n / 5\<rceil> = \<lceil>real_of_int (int n) / real_of_int 5\<rceil>" by simp
  also have "\<dots> = - ((- int n) div 5)"
    unfolding ceiling_divide_eq_div by simp
  finally show ?thesis unfolding pagesNeeded_def by linarith
qed

lemma promises_loop_map:
  "promises_loop f n page acc = acc @ map f [page..<Suc n]"
proof (induction f n page acc rule: promises_loop.induct)
  case (1 f n page acc)
  show ?case
  proof (cases "page \<le> n")
    case True
    then have "[page..<Suc n] = page # [Suc page..<Suc n]"
      by (simp add: upt_conv_Cons)
    with True 1 show ?thesis
      by (subst promises_loop.simps) simp
  next
    case False
    then show ?thesis
      by (subst promises_loop.simps) simp
  qed
qed

lemma foldl_concat_results:
  "foldl concat_results acc rs = acc @ concat (map envelope_results (successful rs))"
proof (induction rs arbitrary: acc)
  case Nil
  show ?case by (simp add: successful_def List.map_filter_simps)
next
  case (Cons r rs)
  show ?case
  proof (cases r)
    case None
    with Cons show ?thesis
      by (simp add: concat_results_def successful_def List.map_filter_simps)
  next
    case (Some e)
    with Cons show ?thesis
      by (cases "results e")
         (simp_all add: concat_results_def successful_def List.map_filter_simps envelope_results_def)
  qed
qed

lemma combine_concat: "combine rs = concat (map envelope_results (successful rs))"
  by (simp add: combine_def foldl_concat_results)

lemma responses_pages:
  "combine (promises_loop f n 1 []) = pages_concat f n"
  by (simp add: combine_concat promises_loop_map pages_concat_def)

lemma count_le_pages: "n \<le> 5 * pagesNeeded n"
  unfolding pagesNeeded_div by arith

lemma successful_contribution:
  "concat (map envelope_results (successful rs)) = concat (map contribution rs)"
  by (induction rs) (auto simp: successful_def List.map_filter_simps contribution_def split: option.splits)

lemma concat_pages_take:
  "concat (map (page_of cat) [1..<Suc n]) = take (5 * n) cat"
proof (induction n)
  case 0
  show ?case by simp
next
  case (Suc n)
  have "take (5 * Suc n) cat = take (5 * n) cat @ take 5 (drop (5 * n) cat)"
    by (metis add.commute mult_Suc_right take_add)
  with Suc show ?case by (simp add: page_of_def)
qed

lemma serves_pages:
  assumes "serves f n cat"
  shows "pages_concat f n = take (5 * n) cat"
proof -
  have "contribution (f p) = page_of cat p" if "p \<in> set [1..<Suc n]" for p
  proof -
    from assms that
    have "case f p of None \<Rightarrow> page_of cat p = []
                    | Some e \<Rightarrow> results e = Some (page_of cat p)"
      unfolding serves_def list_all_iff by blast
    then show ?thesis
      by (cases "f p") (simp_all add: contribution_def envelope_results_def)
  qed
  then have "map contribution (map f [1..<Suc n]) = map (page_of cat) [1..<Suc n]"
    unfolding map_map by (intro map_cong) auto
  then have "concat (map contribution (map f [1..<Suc n])) = take (5 * n) cat"
    using concat_pages_take [of cat n] by metis
  then show ?thesis
    unfolding pages_concat_def successful_contribution .
qed

subsection \<open>The sample networks, page by page\<close>

lemma upt_1_3: "[1..<Suc 2] = [1, 2]"
  by (simp add: upt_conv_Cons)

lemma pagesNeeded_6: "pagesNeeded 6 = 2"
  by (simp add: pagesNeeded_def)

lemma titles_url_1:
  "fullUrl titlesUrl 1 ''sort_by=-imdb_score''
     = ''http://127.0.0.1:8000/api/v1/titles/?page=1&sort_by=-imdb_score''"
  by (simp add: fullUrl_def titlesUrl_def API_baseUrl_def string_of_nat.simps digit_char_def)

lemma titles_url_2:
  "fullUrl titlesUrl 2 ''sort_by=-imdb_score''
     = ''http://127.0.0.1:8000/api/v1/titles/?page=2&sort_by=-imdb_score''"
  by (simp add: fullUrl_def titlesUrl_def API_baseUrl_def string_of_nat.simps digit_char_def)

lemma two_pages_1:
  "fetchPage two_pages_net titlesUrl 1 ''sort_by=-imdb_score''
     = Some \<lparr>results = Some (map sample_movie [1, 2, 3, 4, 5]), next_link = Some ''page=2''\<rparr>"
  unfolding fetchPage_def fetchPage_try_def fetch_def titles_url_1
  by (simp add: two_pages_net_def page_response_def ok_def)

lemma two_pages_2:
  "fetchPage two_pages_net titlesUrl 2 ''sort_by=-imdb_score''
     = Some \<lparr>results = Some (map sample_movie [6, 7]), next_link = None\<rparr>"
  unfolding fetchPage_def fetchPage_try_def fetch_def titles_url_2
  by (simp add: two_pages_net_def page_response_def ok_def)

lemma first_500_1:
  "fetchPage first_page_500_net titlesUrl 1 ''sort_by=-imdb_score'' = None"
  unfolding fetchPage_def fetchPage_try_def fetch_def titles_url_1
  by (simp add: first_page_500_net_def ok_def)

lemma first_500_2:
  "fetchPage first_page_500_net titlesUrl 2 ''sort_by=-imdb_score''
     = Some \<lparr>results = Some (map sample_movie [6, 7, 8, 9, 10]), next_link = None\<rparr>"
  unfolding fetchPage_def fetchPage_try_def fetch_def titles_url_2
  by (simp add: first_page_500_net_def page_response_def ok_def)

lemma second_500_1:
  "fetchPage second_page_500_net titlesUrl 1 ''sort_by=-imdb_score''
     = Some \<lparr>results = Some (map sample_movie [1, 2, 3, 4, 5]), next_link = Some ''page=2''\<rparr>"
  unfolding fetchPage_def fetchPage_try_def fetch_def titles_url_1
  by (simp add: second_page_500_net_def page_response_def ok_def)

lemma second_500_2:
  "fetchPage second_page_500_net titlesUrl 2 ''sort_by=-imdb_score'' = None"
  unfolding fetchPage_def fetchPage_try_def fetch_def titles_url_2
  by (simp add: second_page_500_net_def ok_def)

subsection \<open>The movie page aggregator\<close>

lemma upt_from_1: "0 < n \<Longrightarrow> [1..<Suc n] = 1 # [2..<Suc n]"
  by (simp add: upt_conv_Cons numeral_2_eq_2 del: upt_Suc)

lemma pagesNeeded_pos: "0 < pagesNeeded count \<longleftrightarrow> 0 < count"
  unfolding pagesNeeded_div by arith

lemma fetchMultiplePages_eq:
  "fetchMultiplePages net count q
     = take count (pages_concat (\<lambda>page. fetchMovies net page q) (pagesNeeded count))"
  unfolding fetchMultiplePages_def fetchMultiplePages_responses_def Let_def responses_pages ..

lemma first_page_ok_pages:
  "first_page_ok (map f [1..<Suc n]) \<longleftrightarrow> 0 < n \<and> has_results (f 1)"
proof (cases n)
  case 0
  then show ?thesis by (simp add: first_page_ok_def)
next
  case (Suc k)
  then have "[1..<Suc n] = 1 # [2..<Suc n]"
    by (intro upt_from_1) simp
  then show ?thesis
    using Suc by (simp add: first_page_ok_def has_results_def del: upt_Suc split: option.splits)
qed

lemma displayCategory_movies_eq:
  "displayCategory_movies net count q
     = (if 0 < count \<and> has_results (fetchTitles net 1 q)
        then Some (take count (pages_concat (\<lambda>page. fetchTitles net page q) (pagesNeeded count)))
        else None)"
proof -
  have "first_page_ok (displayCategory_responses net count q)
          \<longleftrightarrow> 0 < count \<and> has_results (fetchTitles net 1 q)"
    unfolding displayCategory_responses_def promises_loop_map
    using first_page_ok_pages [of "\<lambda>page. fetchTitles net page q" "pagesNeeded count"]
    by (simp add: pagesNeeded_pos del: upt_Suc)
  moreover have "combine (displayCategory_responses net count q)
      = pages_concat (\<lambda>page. fetchTitles net page q) (pagesNeeded count)"
    unfolding displayCategory_responses_def responses_pages ..
  ultimately show ?thesis
    unfolding displayCategory_movies_def Let_def by simp
qed

text \<open>
  Claim C1, as the code has it. For every count and every network,
  \<^verbatim>\<open>fetchMultiplePages\<close> asks for the pages \<open>1\<close> to \<open>ceil (count / 5)\<close> and returns the
  results of those that came back as envelopes, concatenated in page order and cut to
  \<open>count\<close> items, so never more than \<open>count\<close>; when these pages serve a catalogue five
  items a page, the list is the first \<open>count\<close> items of the catalogue, of length
  \<open>min count (length catalogue)\<close>. \<^verbatim>\<open>displayCategory\<close> asks for the same pages; it
  builds that list when page 1 came back as an envelope with results, and no list at
  all otherwise, whatever the later pages hold.
\<close>

theorem aggregation_per_function:
  "fetchMultiplePages_responses net count q
     = map (\<lambda>page. fetchMovies net page q) [1..<Suc (nat \<lceil>real count / 5\<rceil>)]
   \<and> fetchMultiplePages net count q
       = take count (pages_concat (\<lambda>page. fetchMovies net page q) (nat \<lceil>real count / 5\<rceil>))
   \<and> length (fetchMultiplePages net count q) \<le> count
   \<and> (serves (\<lambda>page. fetchMovies net page q) (nat \<lceil>real count / 5\<rceil>) catalogue \<longrightarrow>
        fetchMultiplePages net count q = take count catalogue
        \<and> length (fetchMultiplePages net count q) = min count (length catalogue))
   \<and> displayCategory_responses net count q
       = map (\<lambda>page. fetchTitles net page q) [1..<Suc (nat \<lceil>real count / 5\<rceil>)]
   \<and> displayCategory_movies net count q
       = (if 0 < count \<and> has_results (fetchTitles net 1 q)
          then Some (take count
                 (pages_concat (\<lambda>page. fetchTitles net page q) (nat \<lceil>real count / 5\<rceil>)))
          else None)
   \<and> (\<forall>movies. displayCategory_movies net count q = Some movies \<longrightarrow> length movies \<le> count)"
proof -
  have resp: "fetchMultiplePages_responses net count q
     = map (\<lambda>page. fetchMovies net page q) [1..<Suc (pagesNeeded count)]"
    unfolding fetchMultiplePages_responses_def promises_loop_map by simp
  have len: "length (fetchMultiplePages net count q) \<le> count"
    by (simp add: fetchMultiplePages_eq)
  have cat: "fetchMultiplePages net count q = take count catalogue
        \<and> length (fetchMultiplePages net count q) = min count (length catalogue)"
    if "serves (\<lambda>page. fetchMovies net page q) (pagesNeeded count) catalogue"
  proof -
    have "fetchMultiplePages net count q = take count (take (5 * pagesNeeded count) catalogue)"
      using fetchMultiplePages_eq [of net count q] serves_pages [OF that] by simp
    also have "\<dots> = take count catalogue"
      using count_le_pages [of count] by (simp add: min_def)
    finally show ?thesis by (simp add: min.commute)
  qed
  have resp': "displayCategory_responses net count q
     = map (\<lambda>page. fetchTitles net page q) [1..<Suc (pagesNeeded count)]"
    unfolding displayCategory_responses_def promises_loop_map by simp
  have legacy: "length movies \<le> count"
    if "displayCategory_movies net count q = Some movies" for movies
    using that unfolding displayCategory_movies_eq by (auto split: if_splits)
  from resp fetchMultiplePages_eq [of net count q] len cat resp'
    displayCategory_movies_eq [of net count q] legacy
  show ?thesis
    unfolding pagesNeeded_def by blast
qed

text \<open>
  Six movies are asked for, page 1 is answered with status 500 and page 2 is served:
  \<^verbatim>\<open>displayCategory\<close> builds no list, while the pages that came back hold five movies.
\<close>

theorem displayCategory_first_page_counterexample:
  "displayCategory_movies first_page_500_net 6 ''sort_by=-imdb_score'' = None
   \<and> take 6 (pages_concat (\<lambda>page. fetchTitles first_page_500_net page ''sort_by=-imdb_score'')
               (nat \<lceil>real 6 / 5\<rceil>))
       = map sample_movie [6, 7, 8, 9, 10]"
proof -
  have n: "nat \<lceil>real 6 / 5\<rceil> = 2" by simp
  have a: "displayCategory_movies first_page_500_net 6 ''sort_by=-imdb_score'' = None"
    unfolding displayCategory_movies_eq fetchTitles_def first_500_1
    by (simp add: has_results_def)
  have b: "take 6 (pages_concat (\<lambda>page. fetchTitles first_page_500_net page ''sort_by=-imdb_score'')
               (nat \<lceil>real 6 / 5\<rceil>))
       = map sample_movie [6, 7, 8, 9, 10]"
    unfolding n pages_concat_def upt_1_3 fetchTitles_def
    using first_500_1 first_500_2
    by (simp add: successful_def List.map_filter_simps envelope_results_def)
  from a b show ?thesis by blast
qed

theorem aggregation_per_function_witness:
  "serves (\<lambda>page. fetchMovies two_pages_net page ''sort_by=-imdb_score'') (nat \<lceil>real 6 / 5\<rceil>)
     (map sample_movie [1, 2, 3, 4, 5, 6, 7])
   \<and> fetchMultiplePages two_pages_net 6 ''sort_by=-imdb_score''
       = map sample_movie [1, 2, 3, 4, 5, 6]
   \<and> length (fetchMultiplePages two_pages_net 6 ''sort_by=-imdb_score'') = min 6 7
   \<and> length (fetchMultiplePages_responses two_pages_net 6 ''sort_by=-imdb_score'') = 2
   \<and> displayCategory_movies two_pages_net 6 ''sort_by=-imdb_score''
       = Some (map sample_movie [1, 2, 3, 4, 5, 6])
   \<and> length (map sample_movie [1, 2, 3, 4, 5, 6]) \<le> 6"
proof -
  let ?q = "''sort_by=-imdb_score''"
  let ?cat = "map sample_movie [1, 2, 3, 4, 5, 6, 7]"
  note T = aggregation_per_function [of two_pages_net 6 ?q ?cat]
  have n: "nat \<lceil>real 6 / 5\<rceil> = 2" by simp
  have sv: "serves (\<lambda>page. fetchMovies two_pages_net page ?q) (nat \<lceil>real 6 / 5\<rceil>) ?cat"
    unfolding n serves_def upt_1_3
    using two_pages_1 two_pages_2 by (simp add: fetchMovies_def page_of_def)
  from sv T [THEN conjunct2, THEN conjunct2, THEN conjunct2, THEN conjunct1]
  have r: "fetchMultiplePages two_pages_net 6 ?q = take 6 ?cat
           \<and> length (fetchMultiplePages two_pages_net 6 ?q) = min 6 (length ?cat)"
    by (rule rev_mp)
  from r have r1: "fetchMultiplePages two_pages_net 6 ?q = map sample_movie [1, 2, 3, 4, 5, 6]"
    by simp
  from r have r2: "length (fetchMultiplePages two_pages_net 6 ?q) = min 6 7"
    by simp
  from T [THEN conjunct1] have "fetchMultiplePages_responses two_pages_net 6 ?q
     = map (\<lambda>page. fetchMovies two_pages_net page ?q) [1..<Suc (nat \<lceil>real 6 / 5\<rceil>)]" .
  then have r3: "length (fetchMultiplePages_responses two_pages_net 6 ?q) = 2"
    unfolding n upt_1_3 by simp
  have hr: "has_results (fetchTitles two_pages_net 1 ?q)"
    unfolding fetchTitles_def two_pages_1 by (simp add: has_results_def)
  have pc: "take 6 (pages_concat (\<lambda>page. fetchTitles two_pages_net page ?q) (nat \<lceil>real 6 / 5\<rceil>))
     = map sample_movie [1, 2, 3, 4, 5, 6]"
    unfolding n pages_concat_def upt_1_3 fetchTitles_def
    using two_pages_1 two_pages_2
    by (simp add: successful_def List.map_filter_simps envelope_results_def)
  note T6 = T [THEN conjunct2, THEN conjunct2, THEN conjunct2, THEN conjunct2, THEN conjunct2,
      THEN conjunct1]
  have "0 < (6::nat) \<and> has_results (fetchTitles two_pages_net 1 ?q)"
    using hr by simp
  then have "displayCategory_movies two_pages_net 6 ?q
     = Some (take 6 (pages_concat (\<lambda>page. fetchTitles two_pages_net page ?q) (nat \<lceil>real 6 / 5\<rceil>)))"
    by (subst T6) (simp only: if_True simp_thms)
  then have dm: "displayCategory_movies two_pages_net 6 ?q = Some (map sample_movie [1, 2, 3, 4, 5, 6])"
    unfolding pc .
  note T7 = T [THEN conjunct2, THEN conjunct2, THEN conjunct2, THEN conjunct2, THEN conjunct2,
      THEN conjunct2]
  from T7 dm have r4: "length (map sample_movie [1, 2, 3, 4, 5, 6]) \<le> 6"
    by blast
  from sv r1 r2 r3 dm r4 show ?thesis by blast
qed

subsection \<open>Searching a range of pages\<close>

lemma find_SomeD: "find P xs = Some x \<Longrightarrow> x \<in> set xs \<and> P x"
  by (induction xs) (auto split: if_splits)

lemma find_first: "find P [a..<b] = Some x \<Longrightarrow> a \<le> p \<Longrightarrow> p < x \<Longrightarrow> \<not> P p"
proof (induction "b - a" arbitrary: a)
  case 0
  then show ?case by simp
next
  case (Suc n)
  then have ab: "a < b" by simp
  then have up: "[a..<b] = a # [Suc a..<b]" by (simp add: upt_conv_Cons)
  show ?case
  proof (cases "P a")
    case True
    with Suc.prems up show ?thesis by simp
  next
    case False
    with Suc.prems up have f: "find P [Suc a..<b] = Some x" by simp
    show ?thesis
    proof (cases "p = a")
      case True
      with False show ?thesis by simp
    next
      case False
      with Suc.prems have "Suc a \<le> p" by simp
      moreover from Suc.hyps have "n = b - Suc a" by simp
      ultimately show ?thesis using Suc.hyps(1) [of "Suc a"] f Suc.prems(3) by blast
    qed
  qed
qed

lemma find_upt_bounds: "find P [a..<b] = Some x \<Longrightarrow> a \<le> x \<and> x < b \<and> P x"
proof -
  assume "find P [a..<b] = Some x"
  from find_SomeD [OF this] have "x \<in> set [a..<b]" and "P x" by blast+
  then show ?thesis by (simp del: upt_Suc)
qed

lemma find_None_all: "find P xs = None \<Longrightarrow> x \<in> set xs \<Longrightarrow> \<not> P x"
  by (induction xs) (auto split: if_splits)

lemma concat_results_contribution: "concat_results acc r = acc @ contribution r"
  by (simp add: concat_results_def contribution_def envelope_results_def split: option.splits)

lemma fetchGenres_loop_pages:
  "fetchGenres_loop net mx p (tr, acc) =
     (let k = (case find (\<lambda>page. stops (genre_page net page)) [p..<Suc mx] of
                 Some q \<Rightarrow> q | None \<Rightarrow> mx)
      in (tr @ [p..<Suc k], acc @ concat (map contribution (map (genre_page net) [p..<Suc k]))))"
proof (induction net mx p "(tr, acc)" arbitrary: tr acc rule: fetchGenres_loop.induct)
  case (1 net mx p tr acc)
  show ?case
  proof (cases "p \<le> mx")
    case False
    then show ?thesis
      by (subst fetchGenres_loop.simps) (simp split: option.splits)
  next
    case True
    then have up: "[p..<Suc mx] = p # [Suc p..<Suc mx]"
      by (simp add: upt_conv_Cons)
    show ?thesis
    proof (cases "stops (genre_page net p)")
      case st: True
      with True up show ?thesis
        by (subst fetchGenres_loop.simps)
           (simp add: Let_def genre_page_def concat_results_contribution)
    next
      case st: False
      define k where "k = (case find (\<lambda>page. stops (genre_page net page)) [Suc p..<Suc mx] of
                 Some q \<Rightarrow> q | None \<Rightarrow> mx)"
      have pk: "p \<le> k"
      proof (cases "find (\<lambda>page. stops (genre_page net page)) [Suc p..<Suc mx]")
        case None
        with True show ?thesis by (simp add: k_def)
      next
        case (Some q)
        from find_upt_bounds [OF Some] have "Suc p \<le> q" by blast
        with Some show ?thesis by (simp add: k_def del: upt_Suc)
      qed
      then have upk: "[p..<Suc k] = p # [Suc p..<Suc k]"
        by (simp add: upt_conv_Cons)
      have IH: "fetchGenres_loop net mx (Suc p) (tr @ [p], concat_results acc (genre_page net p))
         = ((tr @ [p]) @ [Suc p..<Suc k],
            concat_results acc (genre_page net p)
              @ concat (map contribution (map (genre_page net) [Suc p..<Suc k])))"
        using "1.hyps" [OF True refl refl] st
        by (simp add: genre_page_def Let_def k_def)
      have kk: "(case find (\<lambda>page. stops (genre_page net page)) [p..<Suc mx] of
                 Some q \<Rightarrow> q | None \<Rightarrow> mx) = k"
        unfolding up k_def using st by simp
      have "fetchGenres_loop net mx p (tr, acc)
         = fetchGenres_loop net mx (Suc p) (tr @ [p], concat_results acc (genre_page net p))"
        using True st by (subst fetchGenres_loop.simps) (simp add: Let_def genre_page_def)
      also note IH
      finally have "fetchGenres_loop net mx p (tr, acc)
         = (tr @ [p..<Suc k],
            acc @ concat (map contribution (map (genre_page net) [p..<Suc k])))"
        unfolding upk by (simp add: concat_results_contribution del: upt_Suc)
      then show ?thesis
        unfolding Let_def kk .
    qed
  qed
qed

lemma stop_page_le: "stop_page f mx \<le> mx"
proof (cases "find (\<lambda>page. stops (f page)) [1..<Suc mx]")
  case None
  then show ?thesis by (simp add: stop_page_def del: upt_Suc)
next
  case (Some q)
  from find_upt_bounds [OF Some] have "q \<le> mx" by simp
  with Some show ?thesis by (simp add: stop_page_def del: upt_Suc)
qed

lemma stop_page_before: "1 \<le> p \<Longrightarrow> p < stop_page f mx \<Longrightarrow> \<not> stops (f p)"
proof (cases "find (\<lambda>page. stops (f page)) [1..<Suc mx]")
  case None
  assume "1 \<le> p" "p < stop_page f mx"
  with None have "p \<in> set [1..<Suc mx]" by (simp add: stop_page_def del: upt_Suc)
  with None show ?thesis by (rule find_None_all)
next
  case (Some q)
  assume "1 \<le> p" "p < stop_page f mx"
  with Some have "p < q" by (simp add: stop_page_def del: upt_Suc)
  with find_first [OF Some \<open>1 \<le> p\<close>] show ?thesis by blast
qed

lemma stop_page_stops: "stop_page f mx < mx \<Longrightarrow> stops (f (stop_page f mx))"
proof (cases "find (\<lambda>page. stops (f page)) [1..<Suc mx]")
  case None
  assume "stop_page f mx < mx"
  with None show ?thesis by (simp add: stop_page_def del: upt_Suc)
next
  case (Some q)
  from find_upt_bounds [OF Some] Some show ?thesis by (simp add: stop_page_def del: upt_Suc)
qed

subsection \<open>The genre aggregator\<close>

text \<open>
  Claim C3. For every network, \<^verbatim>\<open>fetchGenres(maxPages)\<close> asks for the pages \<open>1, 2, ...\<close>
  one after the other up to the page \<open>k\<close> at which it stops, and returns the results of
  the envelopes it got, concatenated in page order (the empty list when there is
  none). \<open>k\<close> is at most \<open>maxPages\<close>, no page before \<open>k\<close> came back null or with a
  falsy \<^verbatim>\<open>next\<close>, and page \<open>k\<close> did when \<open>k\<close> is below \<open>maxPages\<close>. The function has
  no exceptional result. \<^verbatim>\<open>fetchGenres()\<close> of fecth\_functions.js is the case
  \<open>maxPages = 5\<close>.
\<close>

theorem fetchGenres_pages:
  "fetchGenres_run net maxPages
     = ([1..<Suc (stop_page (genre_page net) maxPages)],
        pages_concat (genre_page net) (stop_page (genre_page net) maxPages))
   \<and> fetchGenres net maxPages
       = pages_concat (genre_page net) (stop_page (genre_page net) maxPages)
   \<and> fetchGenres_legacy net = pages_concat (genre_page net) (stop_page (genre_page net) 5)
   \<and> stop_page (genre_page net) maxPages \<le> maxPages
   \<and> (\<forall>page. 1 \<le> page \<and> page < stop_page (genre_page net) maxPages
         \<longrightarrow> \<not> stops (genre_page net page))
   \<and> (stop_page (genre_page net) maxPages < maxPages
         \<longrightarrow> stops (genre_page net (stop_page (genre_page net) maxPages)))"
proof -
  have run: "fetchGenres_loop net mx 1 ([], [])
     = ([1..<Suc (stop_page (genre_page net) mx)],
        pages_concat (genre_page net) (stop_page (genre_page net) mx))" for mx
    unfolding fetchGenres_loop_pages Let_def stop_page_def pages_concat_def successful_contribution
    by (simp del: upt_Suc)
  have a: "fetchGenres_run net maxPages
     = ([1..<Suc (stop_page (genre_page net) maxPages)],
        pages_concat (genre_page net) (stop_page (genre_page net) maxPages))"
    unfolding fetchGenres_run_def by (rule run)
  have b: "fetchGenres net maxPages
       = pages_concat (genre_page net) (stop_page (genre_page net) maxPages)"
    unfolding fetchGenres_def a by simp
  have c: "fetchGenres_legacy net = pages_concat (genre_page net) (stop_page (genre_page net) 5)"
    unfolding fetchGenres_legacy_def run by simp
  from a b c stop_page_le [of "genre_page net" maxPages]
    stop_page_before [of _ "genre_page net" maxPages]
    stop_page_stops [of "genre_page net" maxPages]
  show ?thesis by blast
qed

lemma genres_url_1: "fullUrl genresUrl 1 [] = ''http://127.0.0.1:8000/api/v1/genres/?page=1''"
  by (simp add: fullUrl_def genresUrl_def API_baseUrl_def string_of_nat.simps digit_char_def)

lemma genres_url_2: "fullUrl genresUrl 2 [] = ''http://127.0.0.1:8000/api/v1/genres/?page=2''"
  by (simp add: fullUrl_def genresUrl_def API_baseUrl_def string_of_nat.simps digit_char_def)

lemma genres_net_1:
  "genre_page genres_net 1
     = Some \<lparr>results = Some [\<lparr>name = ''Action''\<rparr>, \<lparr>name = ''Adult''\<rparr>], next_link = Some ''page=2''\<rparr>"
  unfolding genre_page_def fetchPage_def fetchPage_try_def fetch_def genres_url_1
  by (simp add: genres_net_def page_response_def ok_def)

lemma genres_net_2:
  "genre_page genres_net 2 = Some \<lparr>results = Some [\<lparr>name = ''Adventure''\<rparr>], next_link = None\<rparr>"
  unfolding genre_page_def fetchPage_def fetchPage_try_def fetch_def genres_url_2
  by (simp add: genres_net_def page_response_def ok_def)

lemma genres_net_stop: "stop_page (genre_page genres_net) 5 = 2"
proof -
  have "[1..<Suc 5] = 1 # 2 # [3..<Suc 5]"
    by (simp add: upt_conv_Cons)
  then show ?thesis
    unfolding stop_page_def
    using genres_net_1 genres_net_2 by (simp add: stops_def del: upt_Suc)
qed

theorem fetchGenres_pages_witness:
  "fetchGenres_run genres_net 5
     = ([1, 2], [\<lparr>name = ''Action''\<rparr>, \<lparr>name = ''Adult''\<rparr>, \<lparr>name = ''Adventure''\<rparr>])
   \<and> (1 \<le> (1::nat) \<and> 1 < stop_page (genre_page genres_net) 5)
   \<and> \<not> stops (genre_page genres_net 1)
   \<and> stop_page (genre_page genres_net) 5 < 5
   \<and> stops (genre_page genres_net (stop_page (genre_page genres_net) 5))"
proof -
  note T = fetchGenres_pages [of genres_net 5]
  have pc: "pages_concat (genre_page genres_net) 2
     = [\<lparr>name = ''Action''\<rparr>, \<lparr>name = ''Adult''\<rparr>, \<lparr>name = ''Adventure''\<rparr>]"
    unfolding pages_concat_def upt_1_3
    using genres_net_1 genres_net_2
    by (simp add: successful_def List.map_filter_simps envelope_results_def)
  from T have "fetchGenres_run genres_net 5
     = ([1..<Suc 2], pages_concat (genre_page genres_net) 2)"
    unfolding genres_net_stop by blast
  then have a: "fetchGenres_run genres_net 5
     = ([1, 2], [\<lparr>name = ''Action''\<rparr>, \<lparr>name = ''Adult''\<rparr>, \<lparr>name = ''Adventure''\<rparr>])"
    unfolding upt_1_3 pc .
  have h1: "1 \<le> (1::nat) \<and> 1 < stop_page (genre_page genres_net) 5"
    unfolding genres_net_stop by simp
  with T have b: "\<not> stops (genre_page genres_net 1)" by blast
  have h2: "stop_page (genre_page genres_net) 5 < 5"
    unfolding genres_net_stop by simp
  with T have c: "stops (genre_page genres_net (stop_page (genre_page genres_net) 5))" by blast
  from a h1 b h2 c show ?thesis by blast
qed

subsection \<open>The page fetcher\<close>

text \<open>
  Claim C4. For every URL, page number and query string, \<^verbatim>\<open>fetchPage\<close> returns the
  parsed body when the request is answered with a success status and a body that
  parses, and returns \<^verbatim>\<open>null\<close> when the request is rejected, when the status is not a
  success, and when the body does not parse: whatever the \<^verbatim>\<open>try\<close> block throws, the
  caller gets \<^verbatim>\<open>null\<close>.
\<close>

theorem fetchPage_fail_soft:
  "(\<forall>r data. net (fullUrl url page q) = Some r \<and> ok r \<and> json r = Some data
        \<longrightarrow> fetchPage net url page q = Some data)
   \<and> (net (fullUrl url page q) = None \<longrightarrow> fetchPage net url page q = None)
   \<and> (\<forall>r. net (fullUrl url page q) = Some r \<and> \<not> ok r \<longrightarrow> fetchPage net url page q = None)
   \<and> (\<forall>r. net (fullUrl url page q) = Some r \<and> json r = None
        \<longrightarrow> fetchPage net url page q = None)
   \<and> (\<forall>e. fetchPage_try net url page q = Inl e \<longrightarrow> fetchPage net url page q = None)"
  by (auto simp: fetchPage_def fetchPage_try_def fetch_def split: option.splits sum.splits)

lemma not_json_1:
  "not_json_net (fullUrl titlesUrl 1 ''sort_by=-imdb_score'') = Some \<lparr>status = 200, json = None\<rparr>"
  unfolding titles_url_1 by (simp add: not_json_net_def)

lemma not_json_2: "not_json_net (fullUrl titlesUrl 2 ''sort_by=-imdb_score'') = None"
  unfolding titles_url_2 by (simp add: not_json_net_def)

lemma two_pages_raw_1:
  "two_pages_net (fullUrl titlesUrl 1 ''sort_by=-imdb_score'')
     = Some (page_response (map sample_movie [1, 2, 3, 4, 5]) (Some ''page=2''))"
  unfolding titles_url_1 by (simp add: two_pages_net_def)

lemma first_500_raw_1:
  "first_page_500_net (fullUrl titlesUrl 1 ''sort_by=-imdb_score'') = Some \<lparr>status = 500, json = None\<rparr>"
  unfolding titles_url_1 by (simp add: first_page_500_net_def)

theorem fetchPage_fail_soft_witness:
  "fetchPage two_pages_net titlesUrl 1 ''sort_by=-imdb_score''
     = Some \<lparr>results = Some (map sample_movie [1, 2, 3, 4, 5]), next_link = Some ''page=2''\<rparr>
   \<and> fetchPage not_json_net titlesUrl 2 ''sort_by=-imdb_score'' = None
   \<and> fetchPage first_page_500_net titlesUrl 1 ''sort_by=-imdb_score'' = None
   \<and> fetchPage not_json_net titlesUrl 1 ''sort_by=-imdb_score'' = None
   \<and> fetchPage_try first_page_500_net titlesUrl 1 ''sort_by=-imdb_score''
       = Inl (Error ''Erreur HTTP: 500'')"
proof -
  let ?q = "''sort_by=-imdb_score''"
  let ?e = "\<lparr>results = Some (map sample_movie [1, 2, 3, 4, 5]), next_link = Some ''page=2''\<rparr>"
  have "two_pages_net (fullUrl titlesUrl 1 ?q) = Some (page_response (map sample_movie [1, 2, 3, 4, 5]) (Some ''page=2''))
        \<and> ok (page_response (map sample_movie [1, 2, 3, 4, 5]) (Some ''page=2''))
        \<and> json (page_response (map sample_movie [1, 2, 3, 4, 5]) (Some ''page=2'')) = Some ?e"
    using two_pages_raw_1 by (simp add: page_response_def ok_def)
  with fetchPage_fail_soft [of two_pages_net titlesUrl 1 ?q]
  have a: "fetchPage two_pages_net titlesUrl 1 ?q = Some ?e" by blast
  from not_json_2 fetchPage_fail_soft [of not_json_net titlesUrl 2 ?q]
  have b: "fetchPage not_json_net titlesUrl 2 ?q = None" by blast
  have "first_page_500_net (fullUrl titlesUrl 1 ?q) = Some \<lparr>status = 500, json = None\<rparr>
        \<and> \<not> ok \<lparr>status = 500, json = None :: movie envelope option\<rparr>"
    using first_500_raw_1 by (simp add: ok_def)
  with fetchPage_fail_soft [of first_page_500_net titlesUrl 1 ?q]
  have c: "fetchPage first_page_500_net titlesUrl 1 ?q = None" by blast
  have "not_json_net (fullUrl titlesUrl 1 ?q) = Some \<lparr>status = 200, json = None\<rparr>
        \<and> json \<lparr>status = 200, json = None :: movie envelope option\<rparr> = None"
    using not_json_1 by simp
  with fetchPage_fail_soft [of not_json_net titlesUrl 1 ?q]
  have d: "fetchPage not_json_net titlesUrl 1 ?q = None" by blast
  have e: "fetchPage_try first_page_500_net titlesUrl 1 ?q = Inl (Error ''Erreur HTTP: 500'')"
    unfolding fetchPage_try_def fetch_def first_500_raw_1
    by (simp add: ok_def string_of_nat.simps digit_char_def)
  from a b c d e show ?thesis by blast
qed

subsection \<open>Formatting the box office\<close>

lemma bit_length_123456789: "bit_length 123456789 = 27"
  by (simp add: bit_length.simps)

lemma bit_length_1000000: "bit_length 1000000 = 20"
  by (simp add: bit_length.simps)

lemma double_div_123456789: "double_div 123456789 1000000 = (8687499202136843, 46)"
  unfolding double_div_def bit_length_123456789 bit_length_1000000
  by (simp add: scaled_def round_half_even_def Let_def)

lemma millions_123456789: "millions_toFixed P 123456789 = ''123.5''"
proof -
  have "quotient_of (123456789 :: rat) = (123456789, 1)" by simp
  then show ?thesis
    unfolding millions_toFixed_def
    by (simp add: double_div_123456789 at_least_1e21_def toFixed1_def Let_def
        string_of_nat.simps digit_char_def)
qed

text \<open>
  Claim C6. \<^verbatim>\<open>formatBoxOffice\<close> maps the number 123456789 to \<^verbatim>\<open>"$123.5m"\<close>, every
  string that begins with a dollar sign to itself, and the number 500 to \<^verbatim>\<open>"$500"\<close>.
\<close>

theorem formatBoxOffice_examples:
  "formatBoxOffice P (Num (Finite 123456789)) = Inr (Str ''$123.5m'')
   \<and> (\<forall>rest. formatBoxOffice P (Str (''$'' @ rest)) = Inr (Str (''$'' @ rest)))
   \<and> formatBoxOffice P (Num (Finite 500)) = Inr (Str ''$500'')"
proof -
  have a: "formatBoxOffice P (Num (Finite 123456789)) = Inr (Str ''$123.5m'')"
    by (simp add: formatBoxOffice_def falsy_def toNumber_def format_number_def millions_123456789)
  have b: "formatBoxOffice P (Str (''$'' @ rest)) = Inr (Str (''$'' @ rest))" for rest
    by (simp add: formatBoxOffice_def falsy_def)
  have "\<lfloor>500 :: rat\<rfloor> = 500" by simp
  then have c: "formatBoxOffice P (Num (Finite 500)) = Inr (Str ''$500'')"
    by (simp add: formatBoxOffice_def falsy_def toNumber_def format_number_def
        toLocaleString_en_def toLocaleString_int_def group_digits.simps
        string_of_nat.simps digit_char_def)
  from a b c show ?thesis by blast
qed











subsection \<open>Closing the modal\<close>

text \<open>
  Claim C9. When no modal is held, or the held element has no parent, \<^verbatim>\<open>closeModal\<close>
  leaves the elements, \<^verbatim>\<open>this.modal\<close> and the body's overflow as they are. When it
  does remove a modal, it also sets \<^verbatim>\<open>this.modal\<close> to \<^verbatim>\<open>null\<close> and the overflow to
  the empty string, and a second call changes nothing: \<^verbatim>\<open>closeModal\<close> is idempotent.
\<close>

theorem closeModal_idempotent:
  "(modal s = None \<or> (\<exists>m. modal s = Some m \<and> parentElement s m = None) \<longrightarrow> closeModal s = s)
   \<and> (\<forall>m p. modal s = Some m \<and> parentElement s m = Some p \<longrightarrow>
         modal (closeModal s) = None
         \<and> overflow (closeModal s) = []
         \<and> parentElement (closeModal s) = (parentElement s)(m := None)
         \<and> closeModal (closeModal s) = closeModal s)
   \<and> closeModal (closeModal s) = closeModal s"
  by (auto simp: closeModal_def split: option.splits)

theorem closeModal_idempotent_witness:
  "closeModal \<lparr>modal = None, parentElement = [7 \<mapsto> 0], overflow = ''hidden''\<rparr>
     = \<lparr>modal = None, parentElement = [7 \<mapsto> 0], overflow = ''hidden''\<rparr>
   \<and> closeModal \<lparr>modal = Some 7, parentElement = Map.empty, overflow = ''hidden''\<rparr>
     = \<lparr>modal = Some 7, parentElement = Map.empty, overflow = ''hidden''\<rparr>
   \<and> modal (closeModal \<lparr>modal = Some 7, parentElement = [7 \<mapsto> 0], overflow = ''hidden''\<rparr>) = None
   \<and> overflow (closeModal \<lparr>modal = Some 7, parentElement = [7 \<mapsto> 0], overflow = ''hidden''\<rparr>) = []
   \<and> parentElement (closeModal \<lparr>modal = Some 7, parentElement = [7 \<mapsto> 0], overflow = ''hidden''\<rparr>) 7
       = None"
proof -
  let ?closed = "\<lparr>modal = None, parentElement = [7 \<mapsto> (0::nat)], overflow = ''hidden''\<rparr>"
  let ?detached = "\<lparr>modal = Some 7, parentElement = Map.empty, overflow = ''hidden''\<rparr>"
  let ?shown = "\<lparr>modal = Some 7, parentElement = [7 \<mapsto> (0::nat)], overflow = ''hidden''\<rparr>"
  have "modal ?closed = None" by simp
  with closeModal_idempotent [of ?closed] have a: "closeModal ?closed = ?closed" by blast
  have "modal ?detached = Some 7 \<and> parentElement ?detached 7 = None" by simp
  with closeModal_idempotent [of ?detached] have b: "closeModal ?detached = ?detached" by blast
  have "modal ?shown = Some 7 \<and> parentElement ?shown 7 = Some 0" by simp
  with closeModal_idempotent [of ?shown]
  have c: "modal (closeModal ?shown) = None \<and> overflow (closeModal ?shown) = []
           \<and> parentElement (closeModal ?shown) = (parentElement ?shown)(7 := None)"
    by blast
  then have d: "parentElement (closeModal ?shown) 7 = None" by simp
  from a b c d show ?thesis by blast
qed

subsection \<open>Images, cards and the banner\<close>

lemma is_data_url_fallback: "is_data_url (createFallbackImageUrl text w h)"
  by (simp add: is_data_url_def createFallbackImageUrl_def Let_def)

lemma is_data_url_legacy: "is_data_url (legacy_fallback_url t)"
  by (simp add: is_data_url_def legacy_fallback_url_def)

lemma encodeURIComponent_append:
  "encodeURIComponent (a @ b) = encodeURIComponent a @ encodeURIComponent b"
  by (simp add: encodeURIComponent_def)

lemma fallback_embeds:
  "sublist (encodeURIComponent t) (createFallbackImageUrl (pre @ t) w h)"
  unfolding createFallbackImageUrl_def Let_def encodeURIComponent_append sublist_def
  by (metis append.assoc)

lemma legacy_embeds: "sublist (encodeURIComponent t) (legacy_fallback_url t)"
  unfolding legacy_fallback_url_def sublist_def by blast

lemma setupImage_absent:
  "\<not> truthy u \<Longrightarrow> loads img0 = loads img \<Longrightarrow>
     shows_placeholder img (setupImage img0 u a w h) (createFallbackImageUrl a w h)"
  by (simp add: shows_placeholder_def setupImage_def set_src_def network_loads_def
      is_data_url_fallback Let_def)

lemma setupImage_failing:
  "truthy u \<Longrightarrow> loads img0 = loads img \<Longrightarrow>
     falls_back_once img (setupImage img0 u a w h) (the u) (createFallbackImageUrl a w h)"
  by (simp add: falls_back_once_def setupImage_def set_src_def error_event_def Let_def)

text \<open>
  Claim C5, as the code has it. For every movie rendered into a grid card (by either
  \<^verbatim>\<open>createMovieCard\<close>) or into the banner: when \<^verbatim>\<open>image_url\<close> is missing or empty,
  the source is set at once to a generated placeholder and no request goes to the
  network; when \<^verbatim>\<open>image_url\<close> is there and its load fails, the placeholder replaces
  it, once, and a later failure changes nothing. These placeholders embed the encoded
  title of the movie. The poster of the modal is different: its source is
  \<^verbatim>\<open>image_url\<close> or else the empty string, and a failed load puts a placeholder with a
  fixed text in its place.
\<close>

theorem image_fallback:
  "(\<not> truthy (image_url m) \<longrightarrow>
      (\<exists>c. createMovieCard (Some t) m = Some c
           \<and> shows_placeholder (card_image t) (card_image c)
                (createFallbackImageUrl (''Affiche '' @ title m) 300 300))
      \<and> (\<exists>c. createMovieCard_legacy (Some t) m = Some c
           \<and> shows_placeholder (card_image t) (card_image c) (legacy_fallback_url (title m)))
      \<and> (imageElement b = Some img \<and> titleElement b \<noteq> None \<and> descriptionElement b \<noteq> None
            \<and> buttonElement b \<noteq> None \<longrightarrow>
          (\<exists>img'. imageElement (updateBestMovieDisplay b m) = Some img'
             \<and> shows_placeholder img img'
                  (createFallbackImageUrl (''Affiche '' @ title m) 225 338))))
   \<and> (truthy (image_url m) \<longrightarrow>
      (\<exists>c. createMovieCard (Some t) m = Some c
           \<and> falls_back_once (card_image t) (card_image c) (the (image_url m))
                (createFallbackImageUrl (''Affiche '' @ title m) 300 300))
      \<and> (\<exists>c. createMovieCard_legacy (Some t) m = Some c
           \<and> falls_back_once (card_image t) (card_image c) (the (image_url m))
                (legacy_fallback_url (title m)))
      \<and> (imageElement b = Some img \<and> titleElement b \<noteq> None \<and> descriptionElement b \<noteq> None
            \<and> buttonElement b \<noteq> None \<longrightarrow>
          (\<exists>img'. imageElement (updateBestMovieDisplay b m) = Some img'
             \<and> falls_back_once img img' (the (image_url m))
                  (createFallbackImageUrl (''Affiche '' @ title m) 225 338))))
   \<and> sublist (encodeURIComponent (title m))
        (createFallbackImageUrl (''Affiche '' @ title m) 300 300)
   \<and> sublist (encodeURIComponent (title m))
        (createFallbackImageUrl (''Affiche '' @ title m) 225 338)
   \<and> sublist (encodeURIComponent (title m)) (legacy_fallback_url (title m))
   \<and> src (createModal_poster poster m) = (if truthy (image_url m) then the (image_url m) else [])
   \<and> src (error_event (createModal_poster poster m)) = modal_fallback_url"
proof -
  have card_a: "\<exists>c. createMovieCard (Some t) m = Some c
           \<and> shows_placeholder (card_image t) (card_image c)
                (createFallbackImageUrl (''Affiche '' @ title m) 300 300)"
    if "\<not> truthy (image_url m)"
    using setupImage_absent [OF that refl] by (simp add: createMovieCard_def)
  have card_b: "\<exists>c. createMovieCard (Some t) m = Some c
           \<and> falls_back_once (card_image t) (card_image c) (the (image_url m))
                (createFallbackImageUrl (''Affiche '' @ title m) 300 300)"
    if "truthy (image_url m)"
    using setupImage_failing [OF that refl] by (simp add: createMovieCard_def)
  have leg_a: "\<exists>c. createMovieCard_legacy (Some t) m = Some c
           \<and> shows_placeholder (card_image t) (card_image c) (legacy_fallback_url (title m))"
    if "\<not> truthy (image_url m)"
    using that
    by (simp add: createMovieCard_legacy_def Let_def shows_placeholder_def set_src_def
        network_loads_def is_data_url_legacy)
  have leg_b: "\<exists>c. createMovieCard_legacy (Some t) m = Some c
           \<and> falls_back_once (card_image t) (card_image c) (the (image_url m))
                (legacy_fallback_url (title m))"
    if "truthy (image_url m)"
    using that
    by (simp add: createMovieCard_legacy_def Let_def falls_back_once_def set_src_def
        error_event_def)
  have ban: "\<exists>img'. imageElement (updateBestMovieDisplay b m) = Some img'
       \<and> img' = setupImage (img\<lparr>width_attr := Some 225\<rparr>) (image_url m)
                  (''Affiche '' @ title m) 225 338"
    if "imageElement b = Some img \<and> titleElement b \<noteq> None \<and> descriptionElement b \<noteq> None
            \<and> buttonElement b \<noteq> None"
    using that by (auto simp: updateBestMovieDisplay_def)
  have ban_a: "\<exists>img'. imageElement (updateBestMovieDisplay b m) = Some img'
             \<and> shows_placeholder img img'
                  (createFallbackImageUrl (''Affiche '' @ title m) 225 338)"
    if "\<not> truthy (image_url m)"
      and "imageElement b = Some img \<and> titleElement b \<noteq> None \<and> descriptionElement b \<noteq> None
            \<and> buttonElement b \<noteq> None"
  proof -
    have "loads (img\<lparr>width_attr := Some 225\<rparr>) = loads img" by simp
    from setupImage_absent [OF that(1) this] ban [OF that(2)]
    show ?thesis by blast
  qed
  have ban_b: "\<exists>img'. imageElement (updateBestMovieDisplay b m) = Some img'
             \<and> falls_back_once img img' (the (image_url m))
                  (createFallbackImageUrl (''Affiche '' @ title m) 225 338)"
    if "truthy (image_url m)"
      and "imageElement b = Some img \<and> titleElement b \<noteq> None \<and> descriptionElement b \<noteq> None
            \<and> buttonElement b \<noteq> None"
  proof -
    have "loads (img\<lparr>width_attr := Some 225\<rparr>) = loads img" by simp
    from setupImage_failing [OF that(1) this] ban [OF that(2)]
    show ?thesis by blast
  qed
  have modal_a: "src (createModal_poster poster m)
      = (if truthy (image_url m) then the (image_url m) else [])"
    by (simp add: createModal_poster_def set_src_def or_else_def)
  have modal_b: "src (error_event (createModal_poster poster m)) = modal_fallback_url"
    by (simp add: createModal_poster_def set_src_def error_event_def)
  from card_a card_b leg_a leg_b ban_a ban_b modal_a modal_b
    fallback_embeds [of "title m" "''Affiche ''" 300 300]
    fallback_embeds [of "title m" "''Affiche ''" 225 338]
    legacy_embeds [of "title m"]
  show ?thesis by blast
qed

text \<open>
  The poster of the modal for a movie without \<^verbatim>\<open>image_url\<close> gets the empty string
  as its source, which holds no title; and for a movie with a poster, two failed loads
  in a row substitute the placeholder twice.
\<close>

theorem modal_poster_counterexample:
  "\<not> truthy (image_url (sample_movie 1))
   \<and> src (createModal_poster blank_image (sample_movie 1)) = []
   \<and> \<not> sublist (encodeURIComponent (title (sample_movie 1)))
          (src (createModal_poster blank_image (sample_movie 1)))
   \<and> loads (error_event (error_event (createModal_poster blank_image movie_with_poster)))
       = [''http://img/up.jpg'', modal_fallback_url, modal_fallback_url]"
  by (simp add: sample_movie_def movie_with_poster_def truthy_def createModal_poster_def
      set_src_def or_else_def blank_image_def error_event_def encodeURIComponent_def
      unreserved_def)

theorem image_fallback_witness:
  "\<not> truthy (image_url (sample_movie 1))
   \<and> src (card_image (the (createMovieCard (Some blank_card) (sample_movie 1))))
       = createFallbackImageUrl ''Affiche Up'' 300 300
   \<and> network_loads (card_image (the (createMovieCard (Some blank_card) (sample_movie 1)))) = []
   \<and> src (the (imageElement (updateBestMovieDisplay sample_banner (sample_movie 1))))
       = createFallbackImageUrl ''Affiche Up'' 225 338
   \<and> truthy (image_url movie_with_poster)
   \<and> src (error_event (card_image (the (createMovieCard (Some blank_card) movie_with_poster))))
       = createFallbackImageUrl ''Affiche Up'' 300 300
   \<and> loads (error_event (error_event
         (card_image (the (createMovieCard (Some blank_card) movie_with_poster)))))
       = [''http://img/up.jpg'', createFallbackImageUrl ''Affiche Up'' 300 300]
   \<and> loads (error_event (error_event
         (the (imageElement (updateBestMovieDisplay sample_banner movie_with_poster)))))
       = [''http://img/up.jpg'', createFallbackImageUrl ''Affiche Up'' 225 338]"
proof -
  note A = image_fallback [of "sample_movie 1" blank_card sample_banner blank_image blank_image]
  note B = image_fallback [of movie_with_poster blank_card sample_banner blank_image blank_image]
  have ban: "imageElement sample_banner = Some blank_image \<and> titleElement sample_banner \<noteq> None
     \<and> descriptionElement sample_banner \<noteq> None \<and> buttonElement sample_banner \<noteq> None"
    by (simp add: sample_banner_def)
  have na: "\<not> truthy (image_url (sample_movie 1))"
    by (simp add: sample_movie_def truthy_def)
  have tb: "truthy (image_url movie_with_poster)"
    by (simp add: movie_with_poster_def truthy_def)
  have t1: "title (sample_movie 1) = ''Up''" "title movie_with_poster = ''Up''"
    "the (image_url movie_with_poster) = ''http://img/up.jpg''"
    "card_image blank_card = blank_image" "loads blank_image = []" "network_loads blank_image = []"
    by (simp_all add: sample_movie_def movie_with_poster_def blank_card_def blank_image_def
        network_loads_def)
  from A na obtain c where c: "createMovieCard (Some blank_card) (sample_movie 1) = Some c"
    "shows_placeholder (card_image blank_card) (card_image c)
       (createFallbackImageUrl (''Affiche '' @ title (sample_movie 1)) 300 300)"
    by blast
  from A na ban obtain i where i: "imageElement (updateBestMovieDisplay sample_banner (sample_movie 1)) = Some i"
    "shows_placeholder blank_image i
       (createFallbackImageUrl (''Affiche '' @ title (sample_movie 1)) 225 338)"
    by blast
  from B tb obtain d where d: "createMovieCard (Some blank_card) movie_with_poster = Some d"
    "falls_back_once (card_image blank_card) (card_image d) (the (image_url movie_with_poster))
       (createFallbackImageUrl (''Affiche '' @ title movie_with_poster) 300 300)"
    by blast
  from B tb ban obtain j where j: "imageElement (updateBestMovieDisplay sample_banner movie_with_poster) = Some j"
    "falls_back_once blank_image j (the (image_url movie_with_poster))
       (createFallbackImageUrl (''Affiche '' @ title movie_with_poster) 225 338)"
    by blast
  from c(2) i(2) d(2) j(2) na tb show ?thesis
    unfolding c(1) i(1) d(1) j(1) shows_placeholder_def falls_back_once_def t1
    by simp
qed

subsection \<open>Two cards for one movie\<close>

lemma createMovieCard_node_run:
  assumes "template_content p = Some t" and "nodes p t = Some c0"
  shows "createMovieCard_node p m
     = (Some (next_node p),
        p\<lparr>nodes := (nodes p)(next_node p := createMovieCard (Some c0) m),
          next_node := Suc (next_node p)\<rparr>)"
  using assms
  by (simp add: createMovieCard_node_def cloneNode_def assign_def createMovieCard_def Let_def)

lemma createMovieCard_legacy_node_run:
  assumes "template_content p = Some t" and "nodes p t = Some c0"
  shows "createMovieCard_legacy_node p m
     = (Some (next_node p),
        p\<lparr>nodes := (nodes p)(next_node p := createMovieCard_legacy (Some c0) m),
          next_node := Suc (next_node p)\<rparr>)"
  using assms
  by (simp add: createMovieCard_legacy_node_def cloneNode_def assign_def
      createMovieCard_legacy_def Let_def set_src_def)

lemma two_runs:
  assumes run: "\<And>p c0. template_content p = Some t \<Longrightarrow> nodes p t = Some c0 \<Longrightarrow>
      create p m = (Some (next_node p),
        p\<lparr>nodes := (nodes p)(next_node p := fill (Some c0) m), next_node := Suc (next_node p)\<rparr>)"
    and fill: "\<And>c0. fill (Some c0) m = Some (made c0)"
    and tmpl: "template_content p = Some t" and c0: "nodes p t = Some c0"
    and lt: "t < next_node p"
  shows "fst (create p m) = Some (next_node p)"
    and "fst (create (assign (snd (create p m)) (next_node p) f) m) = Some (Suc (next_node p))"
    and "nodes (snd (create p m)) (next_node p) = Some (made c0)"
    and "nodes (snd (create (assign (snd (create p m)) (next_node p) f) m)) (Suc (next_node p))
           = Some (made c0)"
    and "nodes (snd (create (assign (snd (create p m)) (next_node p) f) m)) (next_node p)
           = Some (f (made c0))"
    and "nodes (snd (create (assign (snd (create p m)) (next_node p) f) m)) t = nodes p t"
proof -
  define a1 where "a1 = next_node p"
  define p1 where "p1 = p\<lparr>nodes := (nodes p)(a1 := fill (Some c0) m), next_node := Suc a1\<rparr>"
  have r1: "create p m = (Some a1, p1)"
    unfolding a1_def p1_def by (rule run [OF tmpl c0])
  define q where "q = assign p1 a1 f"
  have qt: "template_content q = Some t" using tmpl by (simp add: q_def p1_def assign_def)
  have qc: "nodes q t = Some c0" using c0 lt by (simp add: q_def p1_def a1_def assign_def)
  have qn: "next_node q = Suc a1" by (simp add: q_def p1_def assign_def)
  define p2 where "p2 = q\<lparr>nodes := (nodes q)(Suc a1 := fill (Some c0) m), next_node := Suc (Suc a1)\<rparr>"
  have r2: "create q m = (Some (Suc a1), p2)"
    using run [OF qt qc] unfolding qn p2_def .
  have s1: "snd (create p m) = p1" by (simp add: r1)
  show "fst (create p m) = Some (next_node p)"
    by (simp add: r1 a1_def)
  show "fst (create (assign (snd (create p m)) (next_node p) f) m) = Some (Suc (next_node p))"
    unfolding s1 a1_def [symmetric] q_def [symmetric] by (simp add: r2)
  show "nodes (snd (create p m)) (next_node p) = Some (made c0)"
    unfolding s1 a1_def [symmetric] by (simp add: p1_def fill)
  show "nodes (snd (create (assign (snd (create p m)) (next_node p) f) m)) (Suc (next_node p))
           = Some (made c0)"
    unfolding s1 a1_def [symmetric] q_def [symmetric] r2 snd_conv by (simp add: p2_def fill)
  show "nodes (snd (create (assign (snd (create p m)) (next_node p) f) m)) (next_node p)
           = Some (f (made c0))"
    unfolding s1 a1_def [symmetric] q_def [symmetric] r2 snd_conv
    by (simp add: p2_def q_def assign_def p1_def fill)
  show "nodes (snd (create (assign (snd (create p m)) (next_node p) f) m)) t = nodes p t"
    unfolding s1 a1_def [symmetric] q_def [symmetric] r2 snd_conv
    using lt by (simp add: p2_def q_def assign_def p1_def a1_def)
qed

text \<open>
  Claim C7. On a page in order that has the template, two calls of
  \<^verbatim>\<open>createMovieCard\<close> on the same movie, the second one after the first, return two
  different nodes, neither of them the template, that hold the same card: same title
  text, same movie id on the button, same image source, all fixed by the movie. This
  holds whatever happened to the first card in between (a failed load of its image,
  for one); the second call leaves the first card and the template as they were. The
  same holds of the \<^verbatim>\<open>createMovieCard\<close> of html\_inject.js. Without a template both
  return \<^verbatim>\<open>null\<close> and leave the page alone.
\<close>

theorem createMovieCard_twice:
  "(page_in_order p \<and> template_content p = Some t \<longrightarrow>
      (\<exists>a1 a2 c.
         fst (createMovieCard_node p m) = Some a1 \<and> a1 \<noteq> t
         \<and> fst (createMovieCard_node (assign (snd (createMovieCard_node p m)) a1 f) m) = Some a2
         \<and> a2 \<noteq> a1 \<and> a2 \<noteq> t
         \<and> nodes (snd (createMovieCard_node p m)) a1 = Some c
         \<and> nodes (snd (createMovieCard_node (assign (snd (createMovieCard_node p m)) a1 f) m)) a2
             = Some c
         \<and> nodes (snd (createMovieCard_node (assign (snd (createMovieCard_node p m)) a1 f) m)) a1
             = Some (f c)
         \<and> nodes (snd (createMovieCard_node (assign (snd (createMovieCard_node p m)) a1 f) m)) t
             = nodes p t
         \<and> title_text c = title m
         \<and> movieId c = string_of_nat (movie_id m)
         \<and> src (card_image c) = (if truthy (image_url m) then the (image_url m)
                                  else createFallbackImageUrl (''Affiche '' @ title m) 300 300)))
   \<and> (page_in_order p \<and> template_content p = Some t \<longrightarrow>
      (\<exists>a1 a2 c.
         fst (createMovieCard_legacy_node p m) = Some a1 \<and> a1 \<noteq> t
         \<and> fst (createMovieCard_legacy_node
                  (assign (snd (createMovieCard_legacy_node p m)) a1 f) m) = Some a2
         \<and> a2 \<noteq> a1 \<and> a2 \<noteq> t
         \<and> nodes (snd (createMovieCard_legacy_node p m)) a1 = Some c
         \<and> nodes (snd (createMovieCard_legacy_node
                          (assign (snd (createMovieCard_legacy_node p m)) a1 f) m)) a2
             = Some c
         \<and> nodes (snd (createMovieCard_legacy_node
                          (assign (snd (createMovieCard_legacy_node p m)) a1 f) m)) a1
             = Some (f c)
         \<and> nodes (snd (createMovieCard_legacy_node
                          (assign (snd (createMovieCard_legacy_node p m)) a1 f) m)) t
             = nodes p t
         \<and> title_text c = title m
         \<and> movieId c = string_of_nat (movie_id m)
         \<and> src (card_image c) = (if truthy (image_url m) then the (image_url m)
                                  else legacy_fallback_url (title m))))
   \<and> (template_content p = None \<longrightarrow>
        createMovieCard_node p m = (None, p) \<and> createMovieCard_legacy_node p m = (None, p))"
proof -
  have fill1: "createMovieCard (Some c0) m
      = Some (c0\<lparr>title_text := title m, movieId := string_of_nat (movie_id m),
                 card_image := setupImage (card_image c0) (image_url m)
                                 (''Affiche '' @ title m) 300 300\<rparr>)" for c0
    by (simp add: createMovieCard_def)
  have a: "\<exists>a1 a2 c.
         fst (createMovieCard_node p m) = Some a1 \<and> a1 \<noteq> t
         \<and> fst (createMovieCard_node (assign (snd (createMovieCard_node p m)) a1 f) m) = Some a2
         \<and> a2 \<noteq> a1 \<and> a2 \<noteq> t
         \<and> nodes (snd (createMovieCard_node p m)) a1 = Some c
         \<and> nodes (snd (createMovieCard_node (assign (snd (createMovieCard_node p m)) a1 f) m)) a2
             = Some c
         \<and> nodes (snd (createMovieCard_node (assign (snd (createMovieCard_node p m)) a1 f) m)) a1
             = Some (f c)
         \<and> nodes (snd (createMovieCard_node (assign (snd (createMovieCard_node p m)) a1 f) m)) t
             = nodes p t
         \<and> title_text c = title m
         \<and> movieId c = string_of_nat (movie_id m)
         \<and> src (card_image c) = (if truthy (image_url m) then the (image_url m)
                                  else createFallbackImageUrl (''Affiche '' @ title m) 300 300)"
    if h: "page_in_order p \<and> template_content p = Some t"
  proof -
    from h obtain c0 where c0: "nodes p t = Some c0" and lt: "t < next_node p"
      and tmpl: "template_content p = Some t"
      by (auto simp: page_in_order_def)
    let ?made = "\<lambda>c0. c0\<lparr>title_text := title m, movieId := string_of_nat (movie_id m),
                 card_image := setupImage (card_image c0) (image_url m)
                                 (''Affiche '' @ title m) 300 300\<rparr>"
    note R = two_runs [where create = createMovieCard_node and fill = createMovieCard
        and made = ?made, OF createMovieCard_node_run fill1 tmpl c0 lt]
    have fields: "title_text (?made c0) = title m \<and> movieId (?made c0) = string_of_nat (movie_id m)
       \<and> src (card_image (?made c0)) = (if truthy (image_url m) then the (image_url m)
                                  else createFallbackImageUrl (''Affiche '' @ title m) 300 300)"
      by (simp add: setupImage_def set_src_def Let_def)
    have d: "next_node p \<noteq> t" "Suc (next_node p) \<noteq> next_node p" "Suc (next_node p) \<noteq> t"
      using lt by simp_all
    show ?thesis
      apply (rule exI [of _ "next_node p"])
      apply (rule exI [of _ "Suc (next_node p)"])
      apply (rule exI [of _ "?made c0"])
      using R d fields c0 by simp
  qed
  have fill2: "createMovieCard_legacy (Some c0) m
      = Some (c0\<lparr>title_text := title m, movieId := string_of_nat (movie_id m),
                 card_image :=
                   (if truthy (image_url m)
                    then set_src ((card_image c0)\<lparr>alt := ''Affiche '' @ title m, errorHandled := False,
                                     onerror := Some (LegacyCardHandler (title m))\<rparr>)
                           (the (image_url m))
                    else set_src ((card_image c0)\<lparr>alt := ''Affiche '' @ title m, errorHandled := False,
                                     onerror := Some (LegacyCardHandler (title m))\<rparr>)
                           (legacy_fallback_url (title m)))\<rparr>)" for c0
    by (simp add: createMovieCard_legacy_def Let_def)
  have b: "\<exists>a1 a2 c.
         fst (createMovieCard_legacy_node p m) = Some a1 \<and> a1 \<noteq> t
         \<and> fst (createMovieCard_legacy_node
                  (assign (snd (createMovieCard_legacy_node p m)) a1 f) m) = Some a2
         \<and> a2 \<noteq> a1 \<and> a2 \<noteq> t
         \<and> nodes (snd (createMovieCard_legacy_node p m)) a1 = Some c
         \<and> nodes (snd (createMovieCard_legacy_node
                          (assign (snd (createMovieCard_legacy_node p m)) a1 f) m)) a2
             = Some c
         \<and> nodes (snd (createMovieCard_legacy_node
                          (assign (snd (createMovieCard_legacy_node p m)) a1 f) m)) a1
             = Some (f c)
         \<and> nodes (snd (createMovieCard_legacy_node
                          (assign (snd (createMovieCard_legacy_node p m)) a1 f) m)) t
             = nodes p t
         \<and> title_text c = title m
         \<and> movieId c = string_of_nat (movie_id m)
         \<and> src (card_image c) = (if truthy (image_url m) then the (image_url m)
                                  else legacy_fallback_url (title m))"
    if h: "page_in_order p \<and> template_content p = Some t"
  proof -
    from h obtain c0 where c0: "nodes p t = Some c0" and lt: "t < next_node p"
      and tmpl: "template_content p = Some t"
      by (auto simp: page_in_order_def)
    let ?made = "\<lambda>c0. c0\<lparr>title_text := title m, movieId := string_of_nat (movie_id m),
                 card_image :=
                   (if truthy (image_url m)
                    then set_src ((card_image c0)\<lparr>alt := ''Affiche '' @ title m, errorHandled := False,
                                     onerror := Some (LegacyCardHandler (title m))\<rparr>)
                           (the (image_url m))
                    else set_src ((card_image c0)\<lparr>alt := ''Affiche '' @ title m, errorHandled := False,
                                     onerror := Some (LegacyCardHandler (title m))\<rparr>)
                           (legacy_fallback_url (title m)))\<rparr>"
    note R = two_runs [where create = createMovieCard_legacy_node and fill = createMovieCard_legacy
        and made = ?made, OF createMovieCard_legacy_node_run fill2 tmpl c0 lt]
    have fields: "title_text (?made c0) = title m \<and> movieId (?made c0) = string_of_nat (movie_id m)
       \<and> src (card_image (?made c0)) = (if truthy (image_url m) then the (image_url m)
                                  else legacy_fallback_url (title m))"
      by (simp add: set_src_def)
    have d: "next_node p \<noteq> t" "Suc (next_node p) \<noteq> next_node p" "Suc (next_node p) \<noteq> t"
      using lt by simp_all
    show ?thesis
      apply (rule exI [of _ "next_node p"])
      apply (rule exI [of _ "Suc (next_node p)"])
      apply (rule exI [of _ "?made c0"])
      using R d fields c0 by simp
  qed
  have c: "createMovieCard_node p m = (None, p) \<and> createMovieCard_legacy_node p m = (None, p)"
    if "template_content p = None"
    using that by (simp add: createMovieCard_node_def createMovieCard_legacy_node_def)
  from a b c show ?thesis by blast
qed


theorem createMovieCard_twice_witness:
  "page_in_order sample_page \<and> template_content sample_page = Some 0
   \<and> fst (createMovieCard_node sample_page movie_with_poster) = Some 1
   \<and> fst (createMovieCard_node
             (assign (snd (createMovieCard_node sample_page movie_with_poster)) 1 image_fails)
             movie_with_poster) = Some 2
   \<and> nodes (snd (createMovieCard_node
             (assign (snd (createMovieCard_node sample_page movie_with_poster)) 1 image_fails)
             movie_with_poster)) 2
       = nodes (snd (createMovieCard_node sample_page movie_with_poster)) 1
   \<and> nodes (snd (createMovieCard_node
             (assign (snd (createMovieCard_node sample_page movie_with_poster)) 1 image_fails)
             movie_with_poster)) 0
       = Some blank_card
   \<and> nodes (snd (createMovieCard_legacy_node
             (assign (snd (createMovieCard_legacy_node sample_page movie_with_poster)) 1 image_fails)
             movie_with_poster)) 2
       = nodes (snd (createMovieCard_legacy_node sample_page movie_with_poster)) 1"
proof -
  let ?m = movie_with_poster
  have h: "page_in_order sample_page \<and> template_content sample_page = Some 0"
    by (simp add: page_in_order_def sample_page_def)
  have t0: "template_content sample_page = Some 0" "nodes sample_page 0 = Some blank_card"
    "next_node sample_page = 1" "0 < next_node sample_page"
    by (simp_all add: sample_page_def)
  note T = createMovieCard_twice [of sample_page 0 ?m image_fails]
  from T h obtain a1 a2 c where n:
    "fst (createMovieCard_node sample_page ?m) = Some a1"
    "fst (createMovieCard_node (assign (snd (createMovieCard_node sample_page ?m)) a1 image_fails) ?m)
       = Some a2"
    "nodes (snd (createMovieCard_node sample_page ?m)) a1 = Some c"
    "nodes (snd (createMovieCard_node
        (assign (snd (createMovieCard_node sample_page ?m)) a1 image_fails) ?m)) a2 = Some c"
    "nodes (snd (createMovieCard_node
        (assign (snd (createMovieCard_node sample_page ?m)) a1 image_fails) ?m)) 0
       = nodes sample_page 0"
    by blast
  have a1: "a1 = 1"
  proof -
    from createMovieCard_node_run [OF t0(1) t0(2), of ?m]
    have "fst (createMovieCard_node sample_page ?m) = Some 1" by (simp add: t0)
    with n(1) show ?thesis by simp
  qed
  have a2: "a2 = 2"
  proof -
    let ?q = "assign (snd (createMovieCard_node sample_page ?m)) 1 image_fails"
    have q: "template_content ?q = Some 0" "nodes ?q 0 = Some blank_card" "next_node ?q = 2"
      unfolding createMovieCard_node_run [OF t0(1) t0(2), of ?m]
      by (simp_all add: assign_def t0)
    from createMovieCard_node_run [OF q(1) q(2), of ?m] q(3)
    have "fst (createMovieCard_node ?q ?m) = Some 2" by simp
    with n(2) [unfolded a1] show ?thesis by simp
  qed
  from T h obtain b1 b2 d where l:
    "fst (createMovieCard_legacy_node sample_page ?m) = Some b1"
    "fst (createMovieCard_legacy_node
        (assign (snd (createMovieCard_legacy_node sample_page ?m)) b1 image_fails) ?m) = Some b2"
    "nodes (snd (createMovieCard_legacy_node sample_page ?m)) b1 = Some d"
    "nodes (snd (createMovieCard_legacy_node
        (assign (snd (createMovieCard_legacy_node sample_page ?m)) b1 image_fails) ?m)) b2 = Some d"
    by blast
  have b1: "b1 = 1"
  proof -
    from createMovieCard_legacy_node_run [OF t0(1) t0(2), of ?m]
    have "fst (createMovieCard_legacy_node sample_page ?m) = Some 1" by (simp add: t0)
    with l(1) show ?thesis by simp
  qed
  have b2: "b2 = 2"
  proof -
    let ?q = "assign (snd (createMovieCard_legacy_node sample_page ?m)) 1 image_fails"
    have q: "template_content ?q = Some 0" "nodes ?q 0 = Some blank_card" "next_node ?q = 2"
      unfolding createMovieCard_legacy_node_run [OF t0(1) t0(2), of ?m]
      by (simp_all add: assign_def t0)
    from createMovieCard_legacy_node_run [OF q(1) q(2), of ?m] q(3)
    have "fst (createMovieCard_legacy_node ?q ?m) = Some 2" by simp
    with l(2) [unfolded b1] show ?thesis by simp
  qed
  from h n l t0(2) show ?thesis
    unfolding a1 a2 b1 b2 by simp
qed

subsection \<open>Rendering a category\<close>

text \<open>
  With page 1 null, \<^verbatim>\<open>displayCategory\<close> (html\_inject.js) returns with the page as it
  was, on every network.
\<close>

lemma displayCategory_first_page_null:
  "fetchTitles net 1 q = None \<Longrightarrow> displayCategory net doc sel count q = (None, doc)"
  unfolding displayCategory_def displayCategory_movies_eq
  by (simp add: has_results_def)

text \<open>
  \<^verbatim>\<open>displayCategoryMovies\<close> (categories.js) fills the grid whenever any page brought a
  movie, whether page 1 came back or not.
\<close>

lemma displayCategoryMovies_renders:
  assumes "fetchMultiplePages net count q \<noteq> []" and "grids doc sel \<noteq> None"
  shows "displayCategoryMovies net doc sel count q
     = doc\<lparr>grids := (grids doc)(sel \<mapsto>
          List.map_filter (createMovieCard (movie_card_template doc))
            (fetchMultiplePages net count q))\<rparr>"
proof -
  from assms(2) obtain old where "grids doc sel = Some old" by blast
  with assms(1) show ?thesis
    by (simp add: displayCategoryMovies_def Let_def)
qed

lemma pages_concat_2: "pages_concat f 2 = contribution (f 1) @ contribution (f 2)"
  unfolding pages_concat_def successful_contribution upt_1_3 by simp

lemma fetchMultiplePages_6:
  "fetchMultiplePages net 6 q
     = take 6 (contribution (fetchMovies net 1 q) @ contribution (fetchMovies net 2 q))"
  unfolding fetchMultiplePages_eq pagesNeeded_6 pages_concat_2 ..

lemma first_500_list:
  "fetchMultiplePages first_page_500_net 6 ''sort_by=-imdb_score''
     = map sample_movie [6, 7, 8, 9, 10]"
  unfolding fetchMultiplePages_6 fetchMovies_def first_500_1 first_500_2
  by (simp add: contribution_def envelope_results_def)

lemma sample_grid: "grids sample_document ''.category-top-rated .movies-grid'' = Some []"
  by (simp add: sample_document_def)

text \<open>
  Claim C2 asks that a category whose page 1 came back null shows no cards. Six
  movies are asked for, page 1 is answered with status 500 and page 2 is served:
  \<^verbatim>\<open>displayCategoryMovies\<close> (categories.js) fills the empty grid with the five movies
  of page 2, where \<^verbatim>\<open>displayCategory\<close> (html\_inject.js) returns and leaves the grid
  empty.
\<close>

theorem displayCategoryMovies_partial_list:
  "fetchMovies first_page_500_net 1 ''sort_by=-imdb_score'' = None
   \<and> grids sample_document ''.category-top-rated .movies-grid'' = Some []
   \<and> map_option (map movieId)
        (grids (displayCategoryMovies first_page_500_net sample_document
                  ''.category-top-rated .movies-grid'' 6 ''sort_by=-imdb_score'')
           ''.category-top-rated .movies-grid'')
       = Some [''6'', ''7'', ''8'', ''9'', ''10'']
   \<and> displayCategory first_page_500_net sample_document
         ''.category-top-rated .movies-grid'' 6 ''sort_by=-imdb_score''
       = (None, sample_document)"
proof -
  have a: "fetchMovies first_page_500_net 1 ''sort_by=-imdb_score'' = None"
    unfolding fetchMovies_def by (rule first_500_1)
  have b: "map_option (map movieId)
        (grids (displayCategoryMovies first_page_500_net sample_document
                  ''.category-top-rated .movies-grid'' 6 ''sort_by=-imdb_score'')
           ''.category-top-rated .movies-grid'')
       = Some [''6'', ''7'', ''8'', ''9'', ''10'']"
    unfolding displayCategoryMovies_def Let_def first_500_list sample_grid
    by (simp add: sample_document_def List.map_filter_simps createMovieCard_def sample_movie_def
        string_of_nat.simps digit_char_def)
  have "fetchTitles first_page_500_net 1 ''sort_by=-imdb_score'' = None"
    unfolding fetchTitles_def by (rule first_500_1)
  then have c: "displayCategory first_page_500_net sample_document
         ''.category-top-rated .movies-grid'' 6 ''sort_by=-imdb_score''
       = (None, sample_document)"
    by (rule displayCategory_first_page_null)
  from a sample_grid b c show ?thesis by blast
qed

subsection \<open>The default genres\<close>

text \<open>
  With at least two genres, \<^verbatim>\<open>initializeCategories\<close> takes the third and the fourth
  genre and falls back to the first and the second one.
\<close>

lemma initializeCategories_defaults_long:
  assumes "2 \<le> length gs"
  shows "initializeCategories_defaults gs
     = Some (Some (availableGenres gs ! (if 2 < length gs then 2 else 0)),
             Some (availableGenres gs ! (if 3 < length gs then 3 else 1)))"
  using assms
  by (auto simp: initializeCategories_defaults_def Let_def at_index_def js_or_def availableGenres_def)

text \<open>
  Claim C8 asks for the third and fourth genre as defaults, with a fallback to the
  first and second one on a short list. On a list of three genres,
  \<^verbatim>\<open>injectCategories\<close> (html\_inject.js) leaves the second default \<^verbatim>\<open>undefined\<close>, and
  building the dropdown from it throws; \<^verbatim>\<open>initializeCategories\<close> (categories.js)
  falls back to the second genre there, but on a list of one genre its second default
  is \<^verbatim>\<open>undefined\<close> as well.
\<close>

theorem default_genres_short_list:
  "injectCategories_defaults three_genres
     = Some (Some \<lparr>label = ''Adventure'', value = ''Adventure''\<rparr>, None)
   \<and> createGenreDropdown (availableGenres three_genres) None = Inl TypeError
   \<and> initializeCategories_defaults three_genres
       = Some (Some \<lparr>label = ''Adventure'', value = ''Adventure''\<rparr>,
               Some \<lparr>label = ''Adult'', value = ''Adult''\<rparr>)
   \<and> initializeCategories_defaults [\<lparr>name = ''Action''\<rparr>]
       = Some (Some \<lparr>label = ''Action'', value = ''Action''\<rparr>, None)
   \<and> createGenreDropdown (availableGenres [\<lparr>name = ''Action''\<rparr>]) None = Inl TypeError"
  by (simp add: injectCategories_defaults_def initializeCategories_defaults_def three_genres_def
      availableGenres_def at_index_def js_or_def createGenreDropdown_def Let_def)

end
